theory Spec2Isabelle
  imports Complex_Main "HOL-Library.Multiset"
begin

text \<open>
  A shallow embedding of the document-processing pipeline: the job poller, the worker and
  the batch dispatcher of process\_documents.py and utils.py, the export with its summary,
  the configuration validation, and the read-back of stored results in
  bda\_pipeline/output.py. The extraction service, the object store, the clock and
  \<open>json.loads\<close> are inputs of the model; exceptions are values of a sum type, the poll
  loop is a partial function into \<open>option\<close>, and the order in which the thread pool
  finishes its futures is a parameter.
\<close>

section \<open>Python values\<close>

text \<open>
  The values that travel through the pipeline are JSON-shaped Python objects: the
  responses of the extraction service, the records read back from storage and the
  cells of the result rows. Numbers are integers here; floating-point numbers are not
  modelled. A Python \<open>dict\<close> nested inside a value is an association list in insertion
  order (lookups take the first binding of a key).
\<close>

datatype json =
    JNull
  | JBool bool
  | JInt int
  | JStr string
  | JList "json list"
  | JDict "(string \<times> json) list"

text \<open>A top-level dictionary with string keys: \<open>d.get(k)\<close> is \<open>d k\<close>.\<close>

type_synonym pydict = "string \<rightharpoonup> json"

definition dict_get :: "pydict \<Rightarrow> string \<Rightarrow> json \<Rightarrow> json" where
  \<comment> \<open>\<open>d.get(k, default)\<close>\<close>
  "dict_get d k dflt = (case d k of None \<Rightarrow> dflt | Some v \<Rightarrow> v)"

definition truthy :: "json \<Rightarrow> bool" where
  \<comment> \<open>Python truth value: \<open>None\<close>, \<open>False\<close>, \<open>0\<close>, \<open>''\<close>, \<open>[]\<close> and \<open>{}\<close> are false\<close>
  "truthy v = (case v of
      JNull \<Rightarrow> False
    | JBool b \<Rightarrow> b
    | JInt i \<Rightarrow> i \<noteq> 0
    | JStr s \<Rightarrow> s \<noteq> []
    | JList xs \<Rightarrow> xs \<noteq> []
    | JDict kvs \<Rightarrow> kvs \<noteq> [])"

subsection \<open>\<open>str.join\<close> and \<open>str\<close>\<close>

fun py_join :: "string \<Rightarrow> string list \<Rightarrow> string" where
  \<comment> \<open>\<open>sep.join(parts)\<close>\<close>
  "py_join sep [] = []"
| "py_join sep [p] = p"
| "py_join sep (p # q # ps) = p @ sep @ py_join sep (q # ps)"

definition digit_char :: "nat \<Rightarrow> char" where
  "digit_char d = ''0123456789'' ! d"

fun str_nat :: "nat \<Rightarrow> string" where
  "str_nat n = (if n < 10 then [digit_char n] else str_nat (n div 10) @ [digit_char (n mod 10)])"

declare str_nat.simps [simp del]

definition str_int :: "int \<Rightarrow> string" where
  \<comment> \<open>\<open>str(i)\<close> for an integer\<close>
  "str_int i = (if i < 0 then CHR ''-'' # str_nat (nat (- i)) else str_nat (nat i))"

definition quote_str :: "string \<Rightarrow> string" where
  \<comment> \<open>\<open>repr(s)\<close> of a string without quotes, backslashes or control characters\<close>
  "quote_str s = CHR 0x27 # s @ [CHR 0x27]"

text \<open>
  \<open>py_fmt False v\<close> is \<open>str(v)\<close> and \<open>py_fmt True v\<close> is \<open>repr(v)\<close>: they differ on
  strings only, and the elements of a list or dictionary are shown by \<open>repr\<close>.
\<close>

fun py_fmt :: "bool \<Rightarrow> json \<Rightarrow> string" where
  "py_fmt r JNull = ''None''"
| "py_fmt r (JBool b) = (if b then ''True'' else ''False'')"
| "py_fmt r (JInt i) = str_int i"
| "py_fmt r (JStr s) = (if r then quote_str s else s)"
| "py_fmt r (JList xs) = ''['' @ py_join '', '' (map (py_fmt True) xs) @ '']''"
| "py_fmt r (JDict kvs) =
     ''{'' @ py_join '', '' (map (\<lambda>kv. quote_str (fst kv) @ '': '' @ py_fmt True (snd kv)) kvs) @ ''}''"

definition py_str :: "json \<Rightarrow> string" where
  "py_str v = py_fmt False v"

subsection \<open>Exceptions and the logger\<close>

text \<open>
  Every exception carries the text that \<open>str(e)\<close> returns. \<open>ClientError\<close> is botocore's
  service error; \<open>OtherException\<close> stands for any other exception class a collaborator
  may raise (a connection error, a defect). The texts of the exceptions that the
  interpreter itself raises follow CPython's wording.
\<close>

datatype exn =
    ClientError string
  | TimeoutError string
  | RuntimeError string
  | ValueError string
  | TypeError string
  | AttributeError string
  | KeyError string
  | ZeroDivisionError string
  | JSONDecodeError string
  | OtherException string

fun str_exn :: "exn \<Rightarrow> string" where
  "str_exn (ClientError m) = m"
| "str_exn (TimeoutError m) = m"
| "str_exn (RuntimeError m) = m"
| "str_exn (ValueError m) = m"
| "str_exn (TypeError m) = m"
| "str_exn (AttributeError m) = m"
| "str_exn (KeyError k) = quote_str k"
| "str_exn (ZeroDivisionError m) = m"
| "str_exn (JSONDecodeError m) = m"
| "str_exn (OtherException m) = m"

fun is_ClientError :: "exn \<Rightarrow> bool" where
  "is_ClientError (ClientError m) = True"
| "is_ClientError e = False"

fun is_JSONDecodeError :: "exn \<Rightarrow> bool" where
  "is_JSONDecodeError (JSONDecodeError m) = True"
| "is_JSONDecodeError e = False"

datatype level = DEBUG | INFO | WARNING | ERROR

type_synonym log_entry = "level \<times> string"

section \<open>The job poller (utils.py)\<close>

text \<open>
  One submitted job, as the worker that owns it sees the extraction service:
  the outcome of the submission call, the outcome of the \<open>k\<close>-th status query
  (an exception raised by the client, or the response dictionary), and the wall-clock
  time that passes in the \<open>k\<close>-th round of the poll loop beyond the nominal sleep
  (the latency of the query, an overlong sleep). Time is counted in whole ticks of the
  clock that \<open>poll_interval\<close> and \<open>timeout\<close> are given in.
\<close>

record job_service =
  submit :: "exn + pydict"
  status_reply :: "nat \<Rightarrow> exn + pydict"
  delay :: "nat \<Rightarrow> nat"

text \<open>
  The state of one poll loop: the clock, the clock readings at which the status queries
  made so far were issued (oldest first), and the messages logged.
\<close>

record poll_state =
  now :: int
  polls :: "int list"
  logged :: "log_entry list"

definition log_msg :: "level \<Rightarrow> string \<Rightarrow> poll_state \<Rightarrow> poll_state" where
  "log_msg l m st = st\<lparr>logged := logged st @ [(l, m)]\<rparr>"

text \<open>
  \<open>time.sleep(poll_interval)\<close>: raises \<open>ValueError\<close> for a negative length; otherwise the
  loop goes on (\<open>Inl\<close>) with the clock advanced.
\<close>

definition sleep :: "int \<Rightarrow> poll_state \<Rightarrow> poll_state + (exn + pydict) \<times> poll_state" where
  "sleep poll_interval st =
     (if poll_interval < 0 then Inr (Inl (ValueError ''sleep length must be non-negative''), st)
      else Inl (st\<lparr>now := now st + poll_interval\<rparr>))"

text \<open>
  One round of the \<open>while True\<close> loop of \<open>wait_for_job_completion\<close>: \<open>Inl\<close> is the state
  at the start of the next round, \<open>Inr\<close> is the function's exit, by \<open>return\<close>
  (\<open>Inr response\<close>) or by an exception that leaves the function (\<open>Inl e\<close>).
\<close>

definition poll_round ::
  "job_service \<Rightarrow> string \<Rightarrow> int \<Rightarrow> int \<Rightarrow> int \<Rightarrow> poll_state
     \<Rightarrow> poll_state + (exn + pydict) \<times> poll_state" where
  "poll_round svc invocation_arn poll_interval timeout start_time st =
    (let elapsed = now st - start_time in
     if elapsed > timeout then
       Inr (Inl (TimeoutError (''Job processing exceeded timeout of '' @ str_int timeout @ '' seconds'')),
            log_msg ERROR (''Job '' @ invocation_arn @ '' timed out after '' @ str_int timeout @ '' seconds'') st)
     else
       let k = length (polls st);
           st1 = st\<lparr>polls := polls st @ [now st], now := now st + int (delay svc k)\<rparr>
       in case status_reply svc k of
            Inl e \<Rightarrow>
              if is_ClientError e then
                sleep poll_interval (log_msg ERROR (''Error checking job status: '' @ str_exn e) st1)
              else Inr (Inl e, st1)
          | Inr response \<Rightarrow>
              let status = dict_get response ''status'' JNull in
              if status = JStr ''SUCCESS'' then
                Inr (Inr response,
                     log_msg DEBUG (''Job '' @ invocation_arn @ '' completed successfully'') st1)
              else if status = JStr ''FAILED'' then
                let error_msg = dict_get response ''error'' (JStr ''Unknown error'') in
                Inr (Inl (RuntimeError (''Job failed: '' @ py_str error_msg)),
                     log_msg ERROR (''Job '' @ invocation_arn @ '' failed: '' @ py_str error_msg) st1)
              else if status \<in> {JStr ''IN_PROGRESS'', JStr ''PENDING''} then
                sleep poll_interval
                  (log_msg DEBUG (''Job '' @ invocation_arn @ '' status: '' @ py_str status @ '', waiting...'') st1)
              else
                sleep poll_interval
                  (log_msg WARNING (''Job '' @ invocation_arn @ '' has unknown status: '' @ py_str status) st1))"

text \<open>The loop itself may run forever: \<open>None\<close> is the run that never leaves it.\<close>

partial_function (option) poll_loop ::
  "job_service \<Rightarrow> string \<Rightarrow> int \<Rightarrow> int \<Rightarrow> int \<Rightarrow> poll_state
     \<Rightarrow> ((exn + pydict) \<times> poll_state) option" where
  "poll_loop svc invocation_arn poll_interval timeout start_time st =
     (case poll_round svc invocation_arn poll_interval timeout start_time st of
        Inl st' \<Rightarrow> poll_loop svc invocation_arn poll_interval timeout start_time st'
      | Inr out \<Rightarrow> Some out)"

definition wait_for_job_completion ::
  "job_service \<Rightarrow> string \<Rightarrow> int \<Rightarrow> int \<Rightarrow> poll_state
     \<Rightarrow> ((exn + pydict) \<times> poll_state) option" where
  "wait_for_job_completion svc invocation_arn poll_interval timeout st =
     (let start_time = now st
      in poll_loop svc invocation_arn poll_interval timeout start_time st)"

section \<open>Dynamically typed accesses\<close>

text \<open>
  The service's response is not typed, so the operators applied to its parts can raise.
  \<open>k in c\<close> with a string \<open>k\<close> tests the keys of a dictionary, the elements of a list and
  the substrings of a string, and raises \<open>TypeError\<close> on anything else; \<open>c[k]\<close> needs a
  dictionary; so does \<open>c.get(k, default)\<close>.
\<close>

fun starts_with :: "string \<Rightarrow> string \<Rightarrow> bool" where
  "starts_with s [] = True"
| "starts_with [] (p # ps) = False"
| "starts_with (c # cs) (p # ps) = (c = p \<and> starts_with cs ps)"

definition ends_with :: "string \<Rightarrow> string \<Rightarrow> bool" where
  "ends_with s suffix = starts_with (rev s) (rev suffix)"

fun contains_str :: "string \<Rightarrow> string \<Rightarrow> bool" where
  "contains_str [] p = (p = [])"
| "contains_str (c # cs) p = (starts_with (c # cs) p \<or> contains_str cs p)"

fun type_name :: "json \<Rightarrow> string" where
  "type_name JNull = ''NoneType''"
| "type_name (JBool b) = ''bool''"
| "type_name (JInt i) = ''int''"
| "type_name (JStr s) = ''str''"
| "type_name (JList xs) = ''list''"
| "type_name (JDict kvs) = ''dict''"

definition not_iterable :: "json \<Rightarrow> exn" where
  "not_iterable c = TypeError (''argument of type '' @ quote_str (type_name c) @ '' is not iterable'')"

fun py_contains :: "json \<Rightarrow> string \<Rightarrow> exn + bool" where
  "py_contains (JDict kvs) k = Inr (map_of kvs k \<noteq> None)"
| "py_contains (JList xs) k = Inr (JStr k \<in> set xs)"
| "py_contains (JStr s) k = Inr (contains_str s k)"
| "py_contains c k = Inl (not_iterable c)"

fun py_getitem :: "json \<Rightarrow> string \<Rightarrow> exn + json" where
  "py_getitem (JDict kvs) k = (case map_of kvs k of None \<Rightarrow> Inl (KeyError k) | Some v \<Rightarrow> Inr v)"
| "py_getitem (JList xs) k = Inl (TypeError ''list indices must be integers or slices, not str'')"
| "py_getitem (JStr s) k = Inl (TypeError (''string indices must be integers, not '' @ quote_str ''str''))"
| "py_getitem c k = Inl (TypeError (quote_str (type_name c) @ '' object is not subscriptable''))"

fun py_get :: "json \<Rightarrow> string \<Rightarrow> json \<Rightarrow> exn + json" where
  "py_get (JDict kvs) k dflt = Inr (case map_of kvs k of None \<Rightarrow> dflt | Some v \<Rightarrow> v)"
| "py_get c k dflt =
     Inl (AttributeError (quote_str (type_name c) @ '' object has no attribute '' @ quote_str ''get''))"

section \<open>The worker (process\_documents.py, utils.py)\<close>

definition schema_fields :: "string list" where
  "schema_fields = [''SiteOnForm'', ''NameOnForm'', ''LogoOnForm'', ''EmailOnForm'',
     ''PhoneOnForm'', ''AddressOnForm'', ''SignatureOnForm'', ''LOB'', ''State'', ''Language'']"

text \<open>
  The loop \<open>for field in [...]: result[field] = output_data.get(field, '')\<close>; the first
  field whose lookup raises ends it.
\<close>

fun extract_fields :: "json \<Rightarrow> string list \<Rightarrow> pydict \<Rightarrow> exn + pydict" where
  "extract_fields output_data [] result = Inr result"
| "extract_fields output_data (field # rest) result =
     (case py_get output_data field (JStr '''') of
        Inl e \<Rightarrow> Inl e
      | Inr v \<Rightarrow> extract_fields output_data rest (result(field \<mapsto> v)))"

text \<open>
  The body of the \<open>try\<close> of \<open>extract_results_from_response\<close>. \<open>json_loads\<close> is the
  library's \<open>json.loads\<close>, a parameter of the model; only its \<open>JSONDecodeError\<close> is
  caught where it is called.
\<close>

definition extract_try ::
  "(string \<Rightarrow> exn + json) \<Rightarrow> pydict \<Rightarrow> string \<Rightarrow> poll_state \<Rightarrow> (exn + pydict) \<times> poll_state" where
  "extract_try json_loads response document_key st =
    (let result = [''document'' \<mapsto> JStr document_key, ''processing_status'' \<mapsto> JStr ''success''];
         result1 =
           (case response ''outputConfiguration'' of
              None \<Rightarrow> Inr result
            | Some output_config \<Rightarrow>
                (case py_contains output_config ''s3Uri'' of
                   Inl e \<Rightarrow> Inl e
                 | Inr False \<Rightarrow> Inr result
                 | Inr True \<Rightarrow>
                     (case py_getitem output_config ''s3Uri'' of
                        Inl e \<Rightarrow> Inl e
                      | Inr v \<Rightarrow> Inr (result(''output_s3_uri'' \<mapsto> v)))))
     in case result1 of
          Inl e \<Rightarrow> (Inl e, st)
        | Inr result2 \<Rightarrow>
            (case response ''output'' of
               None \<Rightarrow> (Inr result2, st)
             | Some output_data \<Rightarrow>
                 (case output_data of
                    JStr raw \<Rightarrow>
                      (case json_loads raw of
                         Inr parsed \<Rightarrow> (extract_fields parsed schema_fields result2, st)
                       | Inl e \<Rightarrow>
                           if is_JSONDecodeError e then
                             (extract_fields output_data schema_fields result2,
                              log_msg WARNING (''Could not parse output as JSON for '' @ document_key) st)
                           else (Inl e, st))
                  | _ \<Rightarrow> (extract_fields output_data schema_fields result2, st))))"

definition extract_results_from_response ::
  "(string \<Rightarrow> exn + json) \<Rightarrow> pydict \<Rightarrow> string \<Rightarrow> poll_state \<Rightarrow> pydict \<times> poll_state" where
  "extract_results_from_response json_loads response document_key st =
    (case extract_try json_loads response document_key st of
       (Inr result, st') \<Rightarrow> (result, st')
     | (Inl e, st') \<Rightarrow>
         ([''document'' \<mapsto> JStr document_key, ''processing_status'' \<mapsto> JStr ''error'',
           ''error_message'' \<mapsto> JStr (str_exn e)],
          log_msg ERROR (''Error extracting results for '' @ document_key @ '': '' @ str_exn e) st'))"

text \<open>
  \<open>invoke_document_processing\<close>: only a \<open>ClientError\<close> of the submission becomes a
  dictionary with status \<open>error\<close>; any other exception, and the \<open>KeyError\<close> of a response
  without \<open>invocationArn\<close>, leaves the function.
\<close>

definition invoke_document_processing ::
  "job_service \<Rightarrow> string \<Rightarrow> poll_state \<Rightarrow> (exn + pydict) \<times> poll_state" where
  "invoke_document_processing svc s3_uri st =
    (let st1 = log_msg DEBUG (''Invoking processing for: '' @ s3_uri) st
     in case submit svc of
          Inr response \<Rightarrow>
            (case response ''invocationArn'' of
               None \<Rightarrow> (Inl (KeyError ''invocationArn''), st1)
             | Some arn \<Rightarrow>
                 (Inr [''invocationArn'' \<mapsto> arn, ''s3_uri'' \<mapsto> JStr s3_uri,
                       ''status'' \<mapsto> JStr ''submitted''], st1))
        | Inl e \<Rightarrow>
            if is_ClientError e then
              (Inr [''s3_uri'' \<mapsto> JStr s3_uri, ''status'' \<mapsto> JStr ''error'',
                    ''error'' \<mapsto> JStr (str_exn e)],
               log_msg ERROR (''Error invoking processing for '' @ s3_uri @ '': '' @ str_exn e) st1)
            else (Inl e, st1))"

subsection \<open>Configuration\<close>

text \<open>
  The configuration file as \<open>yaml.safe_load\<close> returns it, a mapping of section names. A
  section is absent (\<open>None\<close>) or holds whatever value the file gives it: a mapping
  (\<open>JDict\<close>), but also \<open>null\<close> (the file says \<open>aws:\<close> and nothing more), a string, a
  list. The \<open>processing\<close> section is the exception: validation never reads into it,
  and the dispatcher and the worker read its entries \<open>batch_size\<close>, \<open>poll_interval\<close> and
  \<open>timeout\<close>, which are taken as present and integer-valued when the section is.
  Likewise the \<open>output\<close> section is taken as holding a boolean \<open>include_metadata\<close> when
  it is present.
\<close>

record processing_cfg =
  cfg_batch_size :: int
  cfg_poll_interval :: int
  cfg_timeout :: int

record config =
  aws :: "json option"
  blueprint :: "json option"
  project :: "json option"
  s3 :: "json option"
  processing :: "processing_cfg option"
  output_include_metadata :: "bool option"

definition basename :: "string \<Rightarrow> string" where
  \<comment> \<open>\<open>key.split('/')[-1]\<close>\<close>
  "basename key = rev (takeWhile (\<lambda>c. c \<noteq> CHR ''/'') (rev key))"

definition error_record :: "string \<Rightarrow> string \<Rightarrow> json \<Rightarrow> pydict" where
  "error_record document_name s3_uri message =
     [''document'' \<mapsto> JStr document_name, ''s3_uri'' \<mapsto> JStr s3_uri,
      ''processing_status'' \<mapsto> JStr ''error'', ''error_message'' \<mapsto> message]"

text \<open>The handler \<open>except Exception as e\<close> of \<open>process_single_document\<close>.\<close>

definition worker_handler :: "string \<Rightarrow> string \<Rightarrow> exn \<Rightarrow> poll_state \<Rightarrow> pydict \<times> poll_state" where
  "worker_handler document_name s3_uri e st =
     (error_record document_name s3_uri (JStr (str_exn e)),
      log_msg ERROR (''Error processing '' @ document_name @ '': '' @ str_exn e) st)"

definition process_single_document ::
  "(string \<Rightarrow> exn + json) \<Rightarrow> job_service \<Rightarrow> string \<Rightarrow> string \<Rightarrow> config \<Rightarrow> poll_state
     \<Rightarrow> (pydict \<times> poll_state) option" where
  "process_single_document json_loads svc bucket key cfg st =
    (let s3_uri = ''s3://'' @ bucket @ ''/'' @ key;
         document_name = basename key;
         st1 = log_msg INFO (''Processing: '' @ document_name) st
     in case invoke_document_processing svc s3_uri st1 of
          (Inl e, st2) \<Rightarrow> Some (worker_handler document_name s3_uri e st2)
        | (Inr invocation, st2) \<Rightarrow>
            if invocation ''status'' = Some (JStr ''error'') then
              Some (error_record document_name s3_uri (dict_get invocation ''error'' JNull), st2)
            else
              let invocation_arn = py_str (dict_get invocation ''invocationArn'' JNull);
                  st3 = log_msg DEBUG (''Waiting for job completion: '' @ invocation_arn) st2
              in (case processing cfg of
                    None \<Rightarrow> Some (worker_handler document_name s3_uri (KeyError ''processing'') st3)
                  | Some p \<Rightarrow>
                      (case wait_for_job_completion svc invocation_arn
                              (cfg_poll_interval p) (cfg_timeout p) st3 of
                         None \<Rightarrow> None
                       | Some (Inl e, st4) \<Rightarrow> Some (worker_handler document_name s3_uri e st4)
                       | Some (Inr response, st4) \<Rightarrow>
                           (case extract_results_from_response json_loads response document_name st4 of
                              (extracted_data, st5) \<Rightarrow>
                                Some (extracted_data(''s3_uri'' \<mapsto> JStr s3_uri),
                                      log_msg INFO (''Successfully processed: '' @ document_name) st5)))))"

section \<open>The batch dispatcher (process\_documents.py)\<close>

text \<open>
  The thread pool runs one future per element of \<open>documents\<close>; future \<open>i\<close> runs the worker on
  \<open>documents ! i\<close> against its own view \<open>client i\<close> of the service, on its own clock.
  \<open>as_completed\<close> hands the futures back in the order they finish, each exactly once:
  that order is the parameter \<open>order\<close>, a permutation of the indices. The outcome of a
  future is an exception (\<open>Inl\<close>) or the worker's return value; a future that never
  finishes (\<open>None\<close>) blocks the collection. The messages the workers log are not merged
  into one log.
\<close>

definition worker_start :: poll_state where
  "worker_start = \<lparr>now = 0, polls = [], logged = []\<rparr>"

fun collect_results ::
  "string \<Rightarrow> string list \<Rightarrow> (nat \<Rightarrow> (exn + pydict) option) \<Rightarrow> nat list \<Rightarrow> pydict list
     \<Rightarrow> pydict list option" where
  "collect_results bucket documents future [] results = Some results"
| "collect_results bucket documents future (i # order) results =
     (let doc_key = documents ! i
      in case future i of
           None \<Rightarrow> None
         | Some (Inr result) \<Rightarrow> collect_results bucket documents future order (results @ [result])
         | Some (Inl e) \<Rightarrow>
             collect_results bucket documents future order
               (results @ [error_record (basename doc_key) (''s3://'' @ bucket @ ''/'' @ doc_key)
                             (JStr (str_exn e))]))"

definition process_documents_batch ::
  "(string \<Rightarrow> exn + json) \<Rightarrow> (nat \<Rightarrow> job_service) \<Rightarrow> string list \<Rightarrow> string \<Rightarrow> config \<Rightarrow> nat list
     \<Rightarrow> (exn + pydict list) option" where
  "process_documents_batch json_loads client documents bucket cfg order =
    (case processing cfg of
       None \<Rightarrow> Some (Inl (KeyError ''processing''))
     | Some p \<Rightarrow>
         let batch_size = cfg_batch_size p in
         if batch_size \<le> 0 then Some (Inl (ValueError ''max_workers must be greater than 0''))
         else
           let future = (\<lambda>i. map_option (\<lambda>out. Inr (fst out))
                  (process_single_document json_loads (client i) bucket (documents ! i) cfg worker_start))
           in map_option Inr (collect_results bucket documents future order []))"

section \<open>Export and summary (process\_documents.py)\<close>

record 'c csv_table =
  csv_header :: "string list"
  csv_rows :: "'c list list"

record summary =
  total_docs :: nat
  successful :: nat
  failed :: nat
  successful_pct :: real
  failed_pct :: real

definition base_columns :: "string list" where
  "base_columns = ''document'' # schema_fields"

definition metadata_columns :: "bool \<Rightarrow> string list" where
  "metadata_columns include_metadata =
     (if include_metadata then [''s3_uri'', ''processing_status'', ''error_message'', ''output_s3_uri'']
      else [])"

text \<open>
  The columns of \<open>pd.DataFrame(results)\<close> are the keys that occur in some result; the loop
  over \<open>base_columns\<close> then adds each base column that is missing.
\<close>

definition df_has_column :: "pydict list \<Rightarrow> string \<Rightarrow> bool" where
  "df_has_column results col =
     (list_ex (\<lambda>r. r col \<noteq> None) results \<or> col \<in> set base_columns)"

text \<open>
  A cell after \<open>fillna('')\<close>: a key the result lacks (NaN in the frame) and a \<open>None\<close>
  value both become the empty string. Any other cell is the value of the result; how
  the frame retypes a column (integers beside missing values) and how \<open>to_csv\<close> prints
  and quotes a value are not modelled.
\<close>

definition cell :: "pydict \<Rightarrow> string \<Rightarrow> json" where
  "cell r col = (case r col of None \<Rightarrow> JStr '''' | Some JNull \<Rightarrow> JStr '''' | Some v \<Rightarrow> v)"

definition is_success :: "pydict \<Rightarrow> bool" where
  "is_success r = (dict_get r ''processing_status'' JNull = JStr ''success'')"

text \<open>
  \<open>export_results_to_csv\<close> writes the file first and computes the summary afterwards, so
  the table is returned in either case; the summary is an exception when a percentage
  divides by zero. The percentages are exact here, before the \<open>.1f\<close> formatting.
\<close>

definition export_results_to_csv ::
  "pydict list \<Rightarrow> bool \<Rightarrow> json csv_table \<times> (exn + summary)" where
  "export_results_to_csv results include_metadata =
    (let columns = filter (df_has_column results) (base_columns @ metadata_columns include_metadata);
         df = \<lparr>csv_header = columns, csv_rows = map (\<lambda>r. map (cell r) columns) results\<rparr>;
         total = length results;
         succeeded = length (filter is_success results);
         failures = total - succeeded
     in (df,
         if total = 0 then Inl (ZeroDivisionError ''division by zero'')
         else Inr \<lparr>total_docs = total, successful = succeeded, failed = failures,
                   successful_pct = real succeeded / real total * 100,
                   failed_pct = real failures / real total * 100\<rparr>))"

section \<open>Configuration validation and the entry point\<close>

definition require_section :: "string \<Rightarrow> 'a option \<Rightarrow> exn + 'a" where
  "require_section name sec =
     (case sec of
        None \<Rightarrow> Inl (ValueError (''Missing required configuration section: '' @ name))
      | Some d \<Rightarrow> Inr d)"

text \<open>
  \<open>if not config[section].get(k): raise ValueError(message)\<close>. The section is whatever
  the file holds: \<open>.get\<close> on anything but a mapping raises \<open>AttributeError\<close>.
\<close>

definition require_entry :: "json \<Rightarrow> string \<Rightarrow> string \<Rightarrow> exn + unit" where
  "require_entry sec k message =
     (case py_get sec k JNull of
        Inl e \<Rightarrow> Inl e
      | Inr v \<Rightarrow> if \<not> truthy v then Inl (ValueError message) else Inr ())"

definition validate_config :: "config \<Rightarrow> exn + unit" where
  "validate_config cfg =
    (case require_section ''aws'' (aws cfg) of
       Inl e \<Rightarrow> Inl e
     | Inr aws_section \<Rightarrow>
    (case require_section ''blueprint'' (blueprint cfg) of
       Inl e \<Rightarrow> Inl e
     | Inr blueprint_section \<Rightarrow>
    (case require_section ''project'' (project cfg) of
       Inl e \<Rightarrow> Inl e
     | Inr project_section \<Rightarrow>
    (case require_section ''s3'' (s3 cfg) of
       Inl e \<Rightarrow> Inl e
     | Inr s3_section \<Rightarrow>
    (case require_section ''processing'' (processing cfg) of
       Inl e \<Rightarrow> Inl e
     | Inr processing_section \<Rightarrow>
    (case require_entry aws_section ''region'' ''AWS region not specified in configuration'' of
       Inl e \<Rightarrow> Inl e
     | Inr u \<Rightarrow>
    (case require_entry blueprint_section ''name'' ''Blueprint name not specified in configuration'' of
       Inl e \<Rightarrow> Inl e
     | Inr u \<Rightarrow>
          require_entry project_section ''name'' ''Project name not specified in configuration'')))))))"

text \<open>
  \<open>main\<close> of process\_documents.py from the loaded configuration on. Its collaborators are
  inputs: the project file (\<open>None\<close> when it does not exist), the outcome of the S3 listing,
  the \<open>--dry-run\<close> flag, the service as the workers see it, the completion order and the
  outcome of the final upload. After validation \<open>main\<close> writes the bucket names into
  \<open>config['s3']\<close>, which raises \<open>TypeError\<close> when that section is not a mapping.
  Argument parsing, logging set-up, URI parsing and the lookup of \<open>output_prefix\<close> are
  taken not to fail. The report holds the exit code or the exception that ends the
  process, the results the dispatcher returned (empty when it was never reached) and the
  table written.
\<close>

fun py_setitem :: "json \<Rightarrow> exn option" where
  \<comment> \<open>\<open>c[k] = v\<close> with a string \<open>k\<close>: the exception it raises, if any\<close>
  "py_setitem (JDict kvs) = None"
| "py_setitem (JList xs) = Some (TypeError ''list indices must be integers or slices, not str'')"
| "py_setitem c = Some (TypeError (quote_str (type_name c) @ '' object does not support item assignment''))"

record run_report =
  outcome :: "exn + int"
  processed :: "pydict list"
  written :: "json csv_table option"

definition main ::
  "(string \<Rightarrow> exn + json) \<Rightarrow> config \<Rightarrow> pydict option \<Rightarrow> exn + string list \<Rightarrow> bool
     \<Rightarrow> (nat \<Rightarrow> job_service) \<Rightarrow> string \<Rightarrow> nat list \<Rightarrow> exn option \<Rightarrow> run_report option" where
  "main json_loads cfg project_info listing dry_run client input_bucket order upload =
    (let stop = (\<lambda>r. Some \<lparr>outcome = r, processed = [], written = None\<rparr>)
     in
    (case validate_config cfg of
       Inl e \<Rightarrow> stop (Inl e)
     | Inr u \<Rightarrow>
    (case (case s3 cfg of None \<Rightarrow> Some (KeyError ''s3'') | Some s3_section \<Rightarrow> py_setitem s3_section) of
       Some e \<Rightarrow> stop (Inl e)
     | None \<Rightarrow>
    (case project_info of
       None \<Rightarrow> stop (Inr 1)
     | Some info \<Rightarrow>
    (case info ''projectArn'' of
       None \<Rightarrow> stop (Inr 1)
     | Some project_arn \<Rightarrow>
    (case listing of
       Inl e \<Rightarrow> stop (Inl e)
     | Inr documents \<Rightarrow>
        if documents = [] then stop (Inr 0)
        else if dry_run then stop (Inr 0)
        else
    (case process_documents_batch json_loads client documents input_bucket cfg order of
       None \<Rightarrow> None
     | Some (Inl e) \<Rightarrow> stop (Inl e)
     | Some (Inr results) \<Rightarrow>
    (case output_include_metadata cfg of
       None \<Rightarrow> Some \<lparr>outcome = Inl (KeyError ''output''), processed = results, written = None\<rparr>
     | Some include_metadata \<Rightarrow>
    (case export_results_to_csv results include_metadata of
       (df, Inl e) \<Rightarrow> Some \<lparr>outcome = Inl e, processed = results, written = Some df\<rparr>
     | (df, Inr stats) \<Rightarrow>
    (case upload of
       Some e \<Rightarrow> Some \<lparr>outcome = Inl e, processed = results, written = Some df\<rparr>
     | None \<Rightarrow> Some \<lparr>outcome = Inr 0, processed = results, written = Some df\<rparr>))))))))))"

section \<open>Result read-back (bda\_pipeline/output.py)\<close>

definition FIELD_JOIN_RULES :: "(string \<times> string) list" where
  "FIELD_JOIN_RULES = [(''LogoOnForm'', '','')]"

definition joiner :: "string option \<Rightarrow> string" where
  \<comment> \<open>\<open>FIELD_JOIN_RULES.get(field_name, ", ")\<close>\<close>
  "joiner field_name =
     (case field_name of
        None \<Rightarrow> '', ''
      | Some name \<Rightarrow> (case map_of FIELD_JOIN_RULES name of None \<Rightarrow> '', '' | Some j \<Rightarrow> j))"

fun normalize_value :: "json \<Rightarrow> string option \<Rightarrow> string" where
  "normalize_value JNull field_name = ''''"
| "normalize_value (JList items) field_name =
     py_join (joiner field_name)
       (filter (\<lambda>normalized. normalized \<noteq> [])
          (map (\<lambda>item. normalize_value item field_name) items))"
| "normalize_value v field_name = py_str v"

definition normalize_record :: "(string \<times> json) list \<Rightarrow> (string \<times> string) list" where
  "normalize_record record = map (\<lambda>kv. (fst kv, normalize_value (snd kv) (Some (fst kv)))) record"

text \<open>
  An object under the output prefix. What \<open>json.loads\<close> makes of its content is part of the
  object: \<open>whole\<close> for the entire body, \<open>body_lines\<close> for each line of \<open>iter_lines()\<close>, where
  \<open>None\<close> is an empty line. \<open>Inl\<close> is the exception raised at that point, by the fetch
  (\<open>get_object\<close>, the stream) or by the decoder.
\<close>

record s3_object =
  obj_key :: string
  whole :: "exn + json"
  body_lines :: "(exn + json) option list"

fun load_json_lines :: "(exn + json) option list \<Rightarrow> exn + (string \<times> string) list list" where
  "load_json_lines [] = Inr []"
| "load_json_lines (None # body) = load_json_lines body"
| "load_json_lines (Some (Inl e) # body) = Inl e"
| "load_json_lines (Some (Inr data) # body) =
     (case load_json_lines body of
        Inl e \<Rightarrow> Inl e
      | Inr records \<Rightarrow>
          (case data of JDict d \<Rightarrow> Inr (normalize_record d # records) | _ \<Rightarrow> Inr records))"

fun dict_items :: "json list \<Rightarrow> (string \<times> string) list list" where
  "dict_items [] = []"
| "dict_items (JDict d # items) = normalize_record d # dict_items items"
| "dict_items (item # items) = dict_items items"

definition object_records :: "s3_object \<Rightarrow> exn + (string \<times> string) list list" where
  "object_records obj =
    (let key = obj_key obj in
     if ends_with key ''.jsonl'' then load_json_lines (body_lines obj)
     else if ends_with key ''.json'' then
       (case whole obj of
          Inl e \<Rightarrow> Inl e
        | Inr (JList document) \<Rightarrow> Inr (dict_items document)
        | Inr (JDict document) \<Rightarrow> Inr [normalize_record document]
        | Inr other \<Rightarrow> Inr [])
     else Inr [])"

fun objects_records :: "s3_object list \<Rightarrow> exn + (string \<times> string) list list" where
  "objects_records [] = Inr []"
| "objects_records (obj # objs) =
     (case object_records obj of
        Inl e \<Rightarrow> Inl e
      | Inr records \<Rightarrow>
          (case objects_records objs of Inl e \<Rightarrow> Inl e | Inr later \<Rightarrow> Inr (records @ later)))"

definition split_s3_uri :: "string \<Rightarrow> exn + string \<times> string" where
  "split_s3_uri uri =
    (if \<not> starts_with uri ''s3://'' then Inl (ValueError (''Invalid S3 URI: '' @ uri))
     else
       let without_scheme = drop 5 uri;
           bucket = takeWhile (\<lambda>c. c \<noteq> CHR ''/'') without_scheme;
           prefix = drop 1 (dropWhile (\<lambda>c. c \<noteq> CHR ''/'') without_scheme)
       in Inr (bucket, prefix))"

text \<open>
  The S3 client: listing a bucket under a prefix yields pages one after the other. A
  page is the exception that fetching it raises (a missing bucket, access denied), which
  ends the listing, or the page with its \<open>Contents\<close> (absent on an empty page). The
  objects of a page are read before the next page is fetched.
\<close>

type_synonym s3_page = "exn + s3_object list option"

definition page_contents :: "s3_object list option \<Rightarrow> s3_object list" where
  \<comment> \<open>\<open>page.get("Contents", [])\<close>\<close>
  "page_contents page = (case page of None \<Rightarrow> [] | Some contents \<Rightarrow> contents)"

fun pages_records :: "s3_page list \<Rightarrow> exn + (string \<times> string) list list" where
  "pages_records [] = Inr []"
| "pages_records (Inl e # pages) = Inl e"
| "pages_records (Inr page # pages) =
     (case objects_records (page_contents page) of
        Inl e \<Rightarrow> Inl e
      | Inr records \<Rightarrow>
          (case pages_records pages of Inl e \<Rightarrow> Inl e | Inr later \<Rightarrow> Inr (records @ later)))"

text \<open>
  The generator \<open>_iter_job_records\<close> is consumed whole by \<open>list(...)\<close>, so an exception
  inside it discards what it had yielded.
\<close>

definition iter_job_records ::
  "(string \<Rightarrow> string \<Rightarrow> s3_page list) \<Rightarrow> string \<Rightarrow> exn + (string \<times> string) list list" where
  "iter_job_records paginate output_s3_uri =
    (case split_s3_uri output_s3_uri of
       Inl e \<Rightarrow> Inl e
     | Inr (bucket, prefix) \<Rightarrow> pages_records (paginate bucket prefix))"

text \<open>
  \<open>build_csv\<close> reads all records first and writes the file afterwards. \<open>write_error\<close> is
  the exception, if any, that creating the directory, opening the file or writing to it
  raises.
\<close>

definition build_csv ::
  "(string \<Rightarrow> string \<Rightarrow> s3_page list) \<Rightarrow> string \<Rightarrow> string list \<Rightarrow> exn option
     \<Rightarrow> exn + string csv_table" where
  "build_csv paginate output_s3_uri fieldnames write_error =
    (case iter_job_records paginate output_s3_uri of
       Inl e \<Rightarrow> Inl e
     | Inr records \<Rightarrow>
         (case write_error of
            Some e \<Rightarrow> Inl e
          | None \<Rightarrow>
              Inr \<lparr>csv_header = fieldnames,
                   csv_rows = map (\<lambda>record. map (\<lambda>field. case map_of record field of
                                                             None \<Rightarrow> '''' | Some v \<Rightarrow> v) fieldnames)
                                  records\<rparr>))"

section \<open>Vocabulary of the properties\<close>

text \<open>
  Names for what the theorems below speak about: the exception and the log line of a
  timeout, the replies after which the poll loop goes round again with the line it logs
  for each, the URI a document is submitted under, and the row the dispatcher appends
  for a finished future.
\<close>

definition timeout_error :: "int \<Rightarrow> exn" where
  "timeout_error timeout =
     TimeoutError (''Job processing exceeded timeout of '' @ str_int timeout @ '' seconds'')"

definition timeout_entry :: "string \<Rightarrow> int \<Rightarrow> log_entry" where
  "timeout_entry invocation_arn timeout =
     (ERROR, ''Job '' @ invocation_arn @ '' timed out after '' @ str_int timeout @ '' seconds'')"

definition continues :: "exn + pydict \<Rightarrow> bool" where
  "continues r =
     (case r of
        Inl e \<Rightarrow> is_ClientError e
      | Inr response \<Rightarrow>
          dict_get response ''status'' JNull \<noteq> JStr ''SUCCESS'' \<and>
          dict_get response ''status'' JNull \<noteq> JStr ''FAILED'')"

definition round_entry :: "string \<Rightarrow> exn + pydict \<Rightarrow> log_entry" where
  "round_entry invocation_arn r =
     (case r of
        Inl e \<Rightarrow> (ERROR, ''Error checking job status: '' @ str_exn e)
      | Inr response \<Rightarrow>
          let status = dict_get response ''status'' JNull in
          if status \<in> {JStr ''IN_PROGRESS'', JStr ''PENDING''} then
            (DEBUG, ''Job '' @ invocation_arn @ '' status: '' @ py_str status @ '', waiting...'')
          else (WARNING, ''Job '' @ invocation_arn @ '' has unknown status: '' @ py_str status))"

definition document_uri :: "string \<Rightarrow> string \<Rightarrow> string" where
  "document_uri bucket key = ''s3://'' @ bucket @ ''/'' @ key"

fun collected_row :: "string \<Rightarrow> string list \<Rightarrow> nat \<Rightarrow> exn + pydict \<Rightarrow> pydict" where
  "collected_row bucket documents i (Inr result) = result"
| "collected_row bucket documents i (Inl e) =
     error_record (basename (documents ! i)) (''s3://'' @ bucket @ ''/'' @ documents ! i)
       (JStr (str_exn e))"




text \<open>
  The state of the poll loop after \<open>n\<close> rounds that each queried, got a reply that is
  not terminal, logged its line and slept the poll interval.
\<close>

definition next_round :: "job_service \<Rightarrow> string \<Rightarrow> int \<Rightarrow> poll_state \<Rightarrow> poll_state" where
  "next_round svc invocation_arn poll_interval st =
     \<lparr>now = now st + int (delay svc (length (polls st))) + poll_interval,
      polls = polls st @ [now st],
      logged = logged st @ [round_entry invocation_arn (status_reply svc (length (polls st)))]\<rparr>"

definition after_rounds :: "job_service \<Rightarrow> string \<Rightarrow> int \<Rightarrow> poll_state \<Rightarrow> nat \<Rightarrow> poll_state" where
  "after_rounds svc invocation_arn poll_interval st n =
     (next_round svc invocation_arn poll_interval ^^ n) st"

text \<open>
  The state in which the loop returns a response with status \<open>SUCCESS\<close>, received in the
  round that starts in state \<open>st\<close>.
\<close>

definition success_state :: "job_service \<Rightarrow> string \<Rightarrow> poll_state \<Rightarrow> poll_state" where
  "success_state svc invocation_arn st =
     \<lparr>now = now st + int (delay svc (length (polls st))),
      polls = polls st @ [now st],
      logged = logged st @ [(DEBUG, ''Job '' @ invocation_arn @ '' completed successfully'')]\<rparr>"

text \<open>
  The state in which the worker enters the poller, when the submission returned
  \<open>invocation_arn\<close>: the worker has logged three lines and made no query.
\<close>

definition poller_entry_state :: "string \<Rightarrow> string \<Rightarrow> string \<Rightarrow> poll_state \<Rightarrow> poll_state" where
  "poller_entry_state bucket key invocation_arn st =
     log_msg DEBUG (''Waiting for job completion: '' @ invocation_arn)
       (log_msg DEBUG (''Invoking processing for: '' @ document_uri bucket key)
          (log_msg INFO (''Processing: '' @ basename key) st))"

section \<open>The poll loop, round by round\<close>

lemma poll_round_timeout:
  assumes "now st - start_time > timeout"
  shows "poll_round svc arn ival timeout start_time st =
           Inr (Inl (timeout_error timeout), st\<lparr>logged := logged st @ [timeout_entry arn timeout]\<rparr>)"
  using assms by (simp add: poll_round_def timeout_error_def timeout_entry_def log_msg_def)

lemma poll_round_continue:
  assumes "now st - start_time \<le> timeout" and "0 \<le> ival"
    and "continues (status_reply svc (length (polls st)))"
  shows "poll_round svc arn ival timeout start_time st =
           Inl \<lparr>now = now st + int (delay svc (length (polls st))) + ival,
                polls = polls st @ [now st],
                logged = logged st @ [round_entry arn (status_reply svc (length (polls st)))]\<rparr>"
  using assms
  by (cases "status_reply svc (length (polls st))")
     (auto simp: poll_round_def continues_def round_entry_def log_msg_def sleep_def Let_def)

lemma poll_round_Inl:
  assumes "poll_round svc arn ival timeout start_time st = Inl st'"
  shows "now st - start_time \<le> timeout \<and>
         now st' = now st + int (delay svc (length (polls st))) + ival"
  using assms
  by (auto simp: poll_round_def sleep_def log_msg_def Let_def split: if_splits sum.splits)

lemma poll_loop_timeout:
  assumes "now st - start_time > timeout"
  shows "poll_loop svc arn ival timeout start_time st =
           Some (Inl (timeout_error timeout), st\<lparr>logged := logged st @ [timeout_entry arn timeout]\<rparr>)"
  by (subst poll_loop.simps) (simp add: poll_round_timeout [OF assms])

lemma poll_loop_continue:
  assumes "now st - start_time \<le> timeout" and "0 \<le> ival"
    and "continues (status_reply svc (length (polls st)))"
  shows "poll_loop svc arn ival timeout start_time st =
         poll_loop svc arn ival timeout start_time
           \<lparr>now = now st + int (delay svc (length (polls st))) + ival,
                polls = polls st @ [now st],
                logged = logged st @ [round_entry arn (status_reply svc (length (polls st)))]\<rparr>"
  by (subst poll_loop.simps) (simp add: poll_round_continue [OF assms])

text \<open>
  When every round takes time, the loop ends: the measure is the time left in the
  timeout window.
\<close>

lemma poll_loop_returns:
  assumes adv: "\<forall>k. 0 < ival + int (delay svc k)"
  shows "\<exists>out. poll_loop svc arn ival timeout start_time st = Some out"
proof (induction "nat (timeout + start_time - now st + 1)" arbitrary: st rule: less_induct)
  case less
  show ?case
  proof (cases "poll_round svc arn ival timeout start_time st")
    case (Inr out)
    then show ?thesis by (subst poll_loop.simps) simp
  next
    case (Inl st')
    from poll_round_Inl [OF Inl] adv [rule_format, of "length (polls st)"]
    have "nat (timeout + start_time - now st' + 1) < nat (timeout + start_time - now st + 1)"
      by simp
    from less.hyps [OF this] obtain out where
      "poll_loop svc arn ival timeout start_time st' = Some out" by blast
    then show ?thesis using Inl by (subst poll_loop.simps) simp
  qed
qed

text \<open>
  A job whose every reply sends the loop round again runs into the timeout: the loop
  returns the timeout error, every query was issued inside the window, and the log
  has one line per round and the timeout line last.
\<close>

lemma poll_loop_runs_out:
  assumes ival: "0 \<le> ival" and adv: "\<forall>k. 0 < ival + int (delay svc k)"
    and cont: "\<forall>k \<ge> length (polls st). continues (status_reply svc k)"
  shows "\<exists>ts st'. poll_loop svc arn ival timeout start_time st =
            Some (Inl (timeout_error timeout), st') \<and>
          timeout < now st' - start_time \<and>
          polls st' = polls st @ ts \<and>
          (\<forall>t \<in> set ts. t - start_time \<le> timeout) \<and>
          logged st' = logged st
             @ map (\<lambda>k. round_entry arn (status_reply svc k))
                 [length (polls st) ..< length (polls st) + length ts]
             @ [timeout_entry arn timeout]"
  using cont
proof (induction "nat (timeout + start_time - now st + 1)" arbitrary: st rule: less_induct)
  case less
  show ?case
  proof (cases "now st - start_time > timeout")
    case True
    show ?thesis
      apply (rule exI [of _ "[]"])
      using True by (simp add: poll_loop_timeout)
  next
    case False
    let ?k = "length (polls st)"
    let ?st = "\<lparr>now = now st + int (delay svc ?k) + ival, polls = polls st @ [now st],
                logged = logged st @ [round_entry arn (status_reply svc ?k)]\<rparr>"
    have le: "now st - start_time \<le> timeout" using False by simp
    have c: "continues (status_reply svc ?k)" using less.prems by simp
    have step: "poll_loop svc arn ival timeout start_time st = poll_loop svc arn ival timeout start_time ?st"
      by (rule poll_loop_continue [OF le ival c])
    have dec: "nat (timeout + start_time - now ?st + 1) < nat (timeout + start_time - now st + 1)"
      using adv [rule_format, of ?k] le by simp
    have cont': "\<forall>k \<ge> length (polls ?st). continues (status_reply svc k)"
      using less.prems by simp
    from less.hyps [OF dec cont'] obtain ts st' where
      r: "poll_loop svc arn ival timeout start_time ?st = Some (Inl (timeout_error timeout), st')"
      and t: "timeout < now st' - start_time"
      and l: "polls st' = polls ?st @ ts"
      and w: "\<forall>t \<in> set ts. t - start_time \<le> timeout"
      and lg: "logged st' = logged ?st
             @ map (\<lambda>k. round_entry arn (status_reply svc k))
                 [length (polls ?st) ..< length (polls ?st) + length ts]
             @ [timeout_entry arn timeout]"
      by blast
    have l': "polls st' = polls st @ (now st # ts)" using l by simp
    have w': "\<forall>t \<in> set (now st # ts). t - start_time \<le> timeout" using w le by simp
    have lg': "logged st' = logged st
             @ map (\<lambda>k. round_entry arn (status_reply svc k)) [?k ..< ?k + length (now st # ts)]
             @ [timeout_entry arn timeout]"
    proof -
      have u: "[?k ..< ?k + length (now st # ts)] = ?k # [Suc ?k ..< Suc ?k + length ts]"
        by (subst upt_rec) simp
      show ?thesis unfolding u using lg by simp
    qed
    show ?thesis
      apply (rule exI [of _ "now st # ts"], rule exI [of _ st'])
      using step r t l' w' lg' by simp
  qed
qed

section \<open>The poll loop after several rounds\<close>

text \<open>
  \<open>after_rounds\<close> is the state of the poller after \<open>n\<close> rounds that went round again:
  the number of queries made, the lines logged, the clock and the instants of the queries.
\<close>

lemma after_rounds_0: "after_rounds svc arn ival st 0 = st"
  by (simp add: after_rounds_def)

lemma after_rounds_Suc:
  "after_rounds svc arn ival st (Suc n) = next_round svc arn ival (after_rounds svc arn ival st n)"
  by (simp add: after_rounds_def)

lemma after_rounds_shift:
  "after_rounds svc arn ival st (Suc n) = after_rounds svc arn ival (next_round svc arn ival st) n"
  by (simp add: after_rounds_def funpow_swap1)

lemma after_rounds_polls_length:
  "length (polls (after_rounds svc arn ival st n)) = length (polls st) + n"
  by (induction n) (simp_all add: after_rounds_0 after_rounds_Suc next_round_def)

lemma after_rounds_logged:
  "logged (after_rounds svc arn ival st n) =
     logged st @ map (\<lambda>j. round_entry arn (status_reply svc (length (polls st) + j))) [0..<n]"
  by (induction n)
     (simp_all add: after_rounds_0 after_rounds_Suc next_round_def after_rounds_polls_length)

lemma after_rounds_now:
  "now (after_rounds svc arn ival st n) =
     now st + (\<Sum>j<n. int (delay svc (length (polls st) + j)) + ival)"
  by (induction n)
     (simp_all add: after_rounds_0 after_rounds_Suc next_round_def after_rounds_polls_length)

lemma after_rounds_polls:
  "polls (after_rounds svc arn ival st n) =
     polls st @ map (\<lambda>j. now (after_rounds svc arn ival st j)) [0..<n]"
  by (induction n) (simp_all add: after_rounds_0 after_rounds_Suc next_round_def)

lemma poll_loop_next_round:
  assumes "now st - start_time \<le> timeout" and "0 \<le> ival"
    and "continues (status_reply svc (length (polls st)))"
  shows "poll_loop svc arn ival timeout start_time st =
         poll_loop svc arn ival timeout start_time (next_round svc arn ival st)"
  unfolding next_round_def by (rule poll_loop_continue [OF assms])

text \<open>The loop, resumed after \<open>n\<close> rounds.\<close>

lemma poll_loop_after_rounds:
  assumes ival: "0 \<le> ival"
    and cont: "\<forall>j<n. continues (status_reply svc (length (polls st) + j))"
    and window: "\<forall>j<n. now (after_rounds svc arn ival st j) - start_time \<le> timeout"
  shows "poll_loop svc arn ival timeout start_time st =
         poll_loop svc arn ival timeout start_time (after_rounds svc arn ival st n)"
  using cont window
proof (induction n)
  case 0
  show ?case by (simp add: after_rounds_0)
next
  case (Suc n)
  let ?s = "after_rounds svc arn ival st n"
  have c: "continues (status_reply svc (length (polls ?s)))"
    using Suc.prems(1) by (simp add: after_rounds_polls_length)
  have w: "now ?s - start_time \<le> timeout" using Suc.prems(2) by simp
  have "poll_loop svc arn ival timeout start_time st = poll_loop svc arn ival timeout start_time ?s"
    using Suc by simp
  also have "\<dots> = poll_loop svc arn ival timeout start_time (after_rounds svc arn ival st (Suc n))"
    unfolding after_rounds_Suc by (rule poll_loop_next_round [OF w ival c])
  finally show ?case .
qed

lemma poll_loop_success:
  assumes "now st - start_time \<le> timeout"
    and "status_reply svc (length (polls st)) = Inr response"
    and "dict_get response ''status'' JNull = JStr ''SUCCESS''"
  shows "poll_loop svc arn ival timeout start_time st = Some (Inr response, success_state svc arn st)"
  using assms
  by (subst poll_loop.simps) (simp add: poll_round_def success_state_def log_msg_def Let_def)

text \<open>The loop ends in the timeout exactly at the first round that starts past the deadline.\<close>

lemma poll_loop_runs_out_exactly:
  assumes ival: "0 \<le> ival" and adv: "\<forall>k. 0 < ival + int (delay svc k)"
    and cont: "\<forall>k \<ge> length (polls st). continues (status_reply svc k)"
  shows "\<exists>n. poll_loop svc arn ival timeout start_time st =
               Some (Inl (timeout_error timeout),
                     (after_rounds svc arn ival st n)
                       \<lparr>logged := logged (after_rounds svc arn ival st n) @ [timeout_entry arn timeout]\<rparr>) \<and>
             (\<forall>j<n. now (after_rounds svc arn ival st j) - start_time \<le> timeout) \<and>
             timeout < now (after_rounds svc arn ival st n) - start_time"
  using cont
proof (induction "nat (timeout + start_time - now st + 1)" arbitrary: st rule: less_induct)
  case less
  show ?case
  proof (cases "now st - start_time > timeout")
    case True
    then show ?thesis
      by (intro exI [of _ 0]) (simp add: poll_loop_timeout after_rounds_0)
  next
    case False
    let ?k = "length (polls st)"
    let ?st = "next_round svc arn ival st"
    have le: "now st - start_time \<le> timeout" using False by simp
    have c: "continues (status_reply svc ?k)" using less.prems by simp
    have step: "poll_loop svc arn ival timeout start_time st = poll_loop svc arn ival timeout start_time ?st"
      by (rule poll_loop_next_round [OF le ival c])
    have dec: "nat (timeout + start_time - now ?st + 1) < nat (timeout + start_time - now st + 1)"
      using adv [rule_format, of ?k] le by (simp add: next_round_def)
    have cont': "\<forall>k \<ge> length (polls ?st). continues (status_reply svc k)"
      using less.prems by (simp add: next_round_def)
    from less.hyps [OF dec cont'] obtain n where
      r: "poll_loop svc arn ival timeout start_time ?st =
               Some (Inl (timeout_error timeout),
                     (after_rounds svc arn ival ?st n)
                       \<lparr>logged := logged (after_rounds svc arn ival ?st n) @ [timeout_entry arn timeout]\<rparr>)"
      and w: "\<forall>j<n. now (after_rounds svc arn ival ?st j) - start_time \<le> timeout"
      and t: "timeout < now (after_rounds svc arn ival ?st n) - start_time"
      by blast
    have w': "\<forall>j<Suc n. now (after_rounds svc arn ival st j) - start_time \<le> timeout"
    proof (intro allI impI)
      fix j assume "j < Suc n"
      then show "now (after_rounds svc arn ival st j) - start_time \<le> timeout"
        using w le by (cases j) (simp_all add: after_rounds_0 after_rounds_shift)
    qed
    show ?thesis
      using step r t w' by (intro exI [of _ "Suc n"]) (simp only: after_rounds_shift simp_thms)
  qed
qed

section \<open>The worker and the dispatcher\<close>

lemma worker_returns:
  assumes "\<forall>k. 0 < ival + int (delay svc k)" and "processing cfg = Some p"
    and "cfg_poll_interval p = ival"
  shows "\<exists>out. process_single_document json_loads svc bucket key cfg st = Some out"
proof -
  have w: "\<And>arn s. wait_for_job_completion svc arn ival (cfg_timeout p) s \<noteq> None"
    unfolding wait_for_job_completion_def Let_def
    using poll_loop_returns [OF assms(1)] by (metis option.distinct(1))
  show ?thesis
    unfolding process_single_document_def Let_def
    using assms(2,3)
    by (auto simp: w split: prod.splits sum.splits option.splits)
qed


lemma collect_results_all:
  assumes "\<forall>i \<in> set order. future i = Some (f i)"
  shows "collect_results bucket documents future order acc =
           Some (acc @ map (\<lambda>i. collected_row bucket documents i (f i)) order)"
  using assms
  by (induction order arbitrary: acc) (auto simp: Let_def split: sum.splits)

lemma batch_results:
  assumes p: "processing cfg = Some p" and b: "0 < cfg_batch_size p"
    and adv: "\<forall>i k. 0 < cfg_poll_interval p + int (delay (client i) k)"
  shows "process_documents_batch json_loads client documents bucket cfg order =
           Some (Inr (map (\<lambda>i. fst (the (process_single_document json_loads (client i) bucket
                                             (documents ! i) cfg worker_start))) order))"
proof -
  let ?w = "\<lambda>i. process_single_document json_loads (client i) bucket (documents ! i) cfg worker_start"
  let ?future = "\<lambda>i. map_option (\<lambda>out. Inr (fst out) :: exn + pydict) (?w i)"
  have ret: "\<exists>out. ?w i = Some out" for i
    by (rule worker_returns [OF _ p refl]) (simp add: adv)
  have fut: "\<forall>i \<in> set order. ?future i = Some (Inr (fst (the (?w i))))"
  proof
    fix i
    from ret [of i] obtain out where "?w i = Some out" by blast
    then show "?future i = Some (Inr (fst (the (?w i))))" by simp
  qed
  have "collect_results bucket documents ?future order [] =
          Some ([] @ map (\<lambda>i. collected_row bucket documents i (Inr (fst (the (?w i))))) order)"
    by (rule collect_results_all [OF fut])
  then show ?thesis
    using p b by (simp add: process_documents_batch_def Let_def)
qed

section \<open>One row per document\<close>



section \<open>Timeout, query errors and unknown statuses\<close>

text \<open>What the poll loop logs, and that it goes round again, for each kind of reply.\<close>

lemma pending_round:
  assumes "status_reply svc k = Inr response"
    and "dict_get response ''status'' JNull \<in> {JStr ''IN_PROGRESS'', JStr ''PENDING''}"
  shows "continues (status_reply svc k) \<and> fst (round_entry arn (status_reply svc k)) = DEBUG"
  using assms by (auto simp: continues_def round_entry_def Let_def)

lemma client_error_round:
  assumes "status_reply svc k = Inl (ClientError m)"
  shows "continues (status_reply svc k) \<and>
         round_entry arn (status_reply svc k) = (ERROR, ''Error checking job status: '' @ m)"
  using assms by (simp add: continues_def round_entry_def)

lemma unknown_round:
  assumes "status_reply svc k = Inr response"
    and "dict_get response ''status'' JNull \<notin>
           {JStr ''SUCCESS'', JStr ''FAILED'', JStr ''IN_PROGRESS'', JStr ''PENDING''}"
  shows "continues (status_reply svc k) \<and>
         round_entry arn (status_reply svc k) =
           (WARNING, ''Job '' @ arn @ '' has unknown status: '' @ py_str (dict_get response ''status'' JNull))"
  using assms by (auto simp: continues_def round_entry_def Let_def)

text \<open>
  Claim C4. The poller compares the elapsed wall-clock time with the timeout at the top
  of every round, before the status query: from any state whose elapsed time exceeds
  the timeout the loop returns the timeout error at once, with no further query (the
  list of queries is unchanged, one line is logged). So a job whose status is
  \<open>IN_PROGRESS\<close> or \<open>PENDING\<close> at every query ends in exactly one timeout
  outcome: the function returns the timeout error, every query it made was issued
  inside the timeout window, and the timeout line is the only line above debug level
  that it logged. The poll interval is not negative and every round takes time.
\<close>

theorem poller_times_out_once:
  assumes ival: "0 \<le> ival"
  shows "(\<forall>s start. timeout < now s - start \<longrightarrow>
            poll_loop svc arn ival timeout start s =
              Some (Inl (timeout_error timeout), s\<lparr>logged := logged s @ [timeout_entry arn timeout]\<rparr>)) \<and>
         ((\<forall>k. 0 < ival + int (delay svc k)) \<and>
          (\<forall>k. \<exists>response. status_reply svc k = Inr response \<and>
                 dict_get response ''status'' JNull \<in> {JStr ''IN_PROGRESS'', JStr ''PENDING''}) \<longrightarrow>
          (\<exists>ts st'. wait_for_job_completion svc arn ival timeout st =
                       Some (Inl (timeout_error timeout), st') \<and>
                     timeout < now st' - now st \<and>
                     polls st' = polls st @ ts \<and>
                     (\<forall>t \<in> set ts. t - now st \<le> timeout) \<and>
                     filter (\<lambda>e. fst e \<noteq> DEBUG) (drop (length (logged st)) (logged st')) =
                       [timeout_entry arn timeout]))"
proof (intro conjI allI impI)
  fix s :: poll_state and start :: int
  assume "timeout < now s - start"
  then show "poll_loop svc arn ival timeout start s =
      Some (Inl (timeout_error timeout), s\<lparr>logged := logged s @ [timeout_entry arn timeout]\<rparr>)"
    by (rule poll_loop_timeout)
next
  assume h: "(\<forall>k. 0 < ival + int (delay svc k)) \<and>
          (\<forall>k. \<exists>response. status_reply svc k = Inr response \<and>
                 dict_get response ''status'' JNull \<in> {JStr ''IN_PROGRESS'', JStr ''PENDING''})"
  then have adv: "\<forall>k. 0 < ival + int (delay svc k)" by blast
  have pend: "continues (status_reply svc k) \<and> fst (round_entry arn (status_reply svc k)) = DEBUG" for k
    using h pending_round by blast
  then have cont: "\<forall>k \<ge> length (polls st). continues (status_reply svc k)" by blast
  from poll_loop_runs_out [OF ival adv cont, of arn timeout "now st"] obtain ts st' where
    r: "poll_loop svc arn ival timeout (now st) st = Some (Inl (timeout_error timeout), st')"
    and t: "timeout < now st' - now st"
    and l: "polls st' = polls st @ ts"
    and w: "\<forall>t \<in> set ts. t - now st \<le> timeout"
    and lg: "logged st' = logged st
             @ map (\<lambda>k. round_entry arn (status_reply svc k))
                 [length (polls st) ..< length (polls st) + length ts]
             @ [timeout_entry arn timeout]"
    by blast
  have f: "filter (\<lambda>e. fst e \<noteq> DEBUG) (map (\<lambda>k. round_entry arn (status_reply svc k)) ks) = []" for ks
    by (induction ks) (simp_all add: pend)
  have "filter (\<lambda>e. fst e \<noteq> DEBUG) (drop (length (logged st)) (logged st')) = [timeout_entry arn timeout]"
    unfolding lg by (simp add: f timeout_entry_def)
  with r t l w
  show "\<exists>ts st'. wait_for_job_completion svc arn ival timeout st =
                       Some (Inl (timeout_error timeout), st') \<and>
                     timeout < now st' - now st \<and>
                     polls st' = polls st @ ts \<and>
                     (\<forall>t \<in> set ts. t - now st \<le> timeout) \<and>
                     filter (\<lambda>e. fst e \<noteq> DEBUG) (drop (length (logged st)) (logged st')) =
                       [timeout_entry arn timeout]"
    unfolding wait_for_job_completion_def Let_def by blast
qed

theorem poller_times_out_once_witness:
  "(0::int) \<le> 2 \<and>
   (\<exists>ts st'. wait_for_job_completion
        \<lparr>submit = Inr [''invocationArn'' \<mapsto> JStr ''job-1''],
         status_reply = (\<lambda>k. Inr [''status'' \<mapsto> JStr ''IN_PROGRESS'']), delay = (\<lambda>k. 0)\<rparr>
        ''job-1'' 2 3 worker_start = Some (Inl (timeout_error 3), st') \<and>
      3 < now st' - now worker_start \<and>
      polls st' = polls worker_start @ ts \<and>
      (\<forall>t \<in> set ts. t - now worker_start \<le> 3) \<and>
      filter (\<lambda>e. fst e \<noteq> DEBUG) (drop (length (logged worker_start)) (logged st')) =
        [timeout_entry ''job-1'' 3])"
  using poller_times_out_once [of 2 3
      "\<lparr>submit = Inr [''invocationArn'' \<mapsto> JStr ''job-1''],
         status_reply = (\<lambda>k. Inr [''status'' \<mapsto> JStr ''IN_PROGRESS'']), delay = (\<lambda>k. 0)\<rparr>"
      "''job-1''" worker_start]
  by (simp add: dict_get_def)

section \<open>Query errors\<close>

text \<open>
  Claim C8. A status query that raises a client error does not end the poll loop. As long
  as the first \<open>n\<close> queries raise client errors and each of these rounds starts within the
  timeout window, \<open>wait_for_job_completion\<close> is the loop resumed after \<open>n\<close> rounds: it has
  made \<open>n\<close> queries, one per round, has slept the poll interval after each of them (the
  clock has advanced by the service delays plus \<open>n\<close> poll intervals), and has logged one
  error line per failed query and nothing else. The loop honours a later reply: when the
  query after these \<open>n\<close> failures, still within the window, reports SUCCESS, the poller
  returns that response. When every query raises a client error and time advances, the
  poller keeps querying in every round that starts within the window, and it ends with
  the timeout error, not the client error, at the first round that starts past the
  window, having made at least one query when the timeout is not negative.
\<close>

theorem query_errors_are_retried:
  assumes ival: "0 \<le> ival"
    and errs: "\<forall>j<n. status_reply svc (length (polls st) + j) = Inl (ClientError (msg j))"
    and window: "\<forall>j<n. now (after_rounds svc arn ival st j) - now st \<le> timeout"
  shows "wait_for_job_completion svc arn ival timeout st =
           poll_loop svc arn ival timeout (now st) (after_rounds svc arn ival st n) \<and>
         polls (after_rounds svc arn ival st n) =
           polls st @ map (\<lambda>j. now (after_rounds svc arn ival st j)) [0..<n] \<and>
         now (after_rounds svc arn ival st n) =
           now st + (\<Sum>j<n. int (delay svc (length (polls st) + j)) + ival) \<and>
         logged (after_rounds svc arn ival st n) =
           logged st @ map (\<lambda>j. (ERROR, ''Error checking job status: '' @ msg j)) [0..<n] \<and>
         (\<forall>response.
            status_reply svc (length (polls st) + n) = Inr response \<and>
            dict_get response ''status'' JNull = JStr ''SUCCESS'' \<and>
            now (after_rounds svc arn ival st n) - now st \<le> timeout \<longrightarrow>
            wait_for_job_completion svc arn ival timeout st =
              Some (Inr response, success_state svc arn (after_rounds svc arn ival st n))) \<and>
         ((\<forall>k. 0 < ival + int (delay svc k)) \<and>
          (\<forall>k. status_reply svc k = Inl (ClientError (reply_text k))) \<longrightarrow>
          (\<exists>m. wait_for_job_completion svc arn ival timeout st =
                  Some (Inl (timeout_error timeout),
                        (after_rounds svc arn ival st m)
                          \<lparr>logged := logged (after_rounds svc arn ival st m) @ [timeout_entry arn timeout]\<rparr>) \<and>
                (\<forall>j<m. now (after_rounds svc arn ival st j) - now st \<le> timeout) \<and>
                timeout < now (after_rounds svc arn ival st m) - now st \<and>
                (0 \<le> timeout \<longrightarrow> 0 < m) \<and>
                logged (after_rounds svc arn ival st m) =
                  logged st @ map (\<lambda>j. (ERROR, ''Error checking job status: '' @ reply_text (length (polls st) + j)))
                              [0..<m]))"
proof -
  let ?after = "after_rounds svc arn ival st"
  have ce: "continues (status_reply svc (length (polls st) + j)) \<and>
            round_entry arn (status_reply svc (length (polls st) + j)) =
              (ERROR, ''Error checking job status: '' @ msg j)" if "j < n" for j
    using errs that client_error_round by blast
  have cont: "\<forall>j<n. continues (status_reply svc (length (polls st) + j))"
    using ce by blast
  have resume: "wait_for_job_completion svc arn ival timeout st =
           poll_loop svc arn ival timeout (now st) (?after n)"
    unfolding wait_for_job_completion_def Let_def
    by (rule poll_loop_after_rounds [OF ival cont window])
  have lg: "logged (?after n) =
           logged st @ map (\<lambda>j. (ERROR, ''Error checking job status: '' @ msg j)) [0..<n]"
    unfolding after_rounds_logged using ce by simp
  have succ: "wait_for_job_completion svc arn ival timeout st =
              Some (Inr response, success_state svc arn (?after n))"
    if "status_reply svc (length (polls st) + n) = Inr response \<and>
        dict_get response ''status'' JNull = JStr ''SUCCESS'' \<and>
        now (?after n) - now st \<le> timeout" for response
  proof -
    have "poll_loop svc arn ival timeout (now st) (?after n) =
            Some (Inr response, success_state svc arn (?after n))"
      using that by (intro poll_loop_success) (simp_all add: after_rounds_polls_length)
    with resume show ?thesis by simp
  qed
  have out: "\<exists>m. wait_for_job_completion svc arn ival timeout st =
                  Some (Inl (timeout_error timeout),
                        (?after m)\<lparr>logged := logged (?after m) @ [timeout_entry arn timeout]\<rparr>) \<and>
                (\<forall>j<m. now (?after j) - now st \<le> timeout) \<and>
                timeout < now (?after m) - now st \<and>
                (0 \<le> timeout \<longrightarrow> 0 < m) \<and>
                logged (?after m) =
                  logged st @ map (\<lambda>j. (ERROR, ''Error checking job status: '' @ reply_text (length (polls st) + j)))
                              [0..<m]"
    if h: "(\<forall>k. 0 < ival + int (delay svc k)) \<and> (\<forall>k. status_reply svc k = Inl (ClientError (reply_text k)))"
  proof -
    from h have adv: "\<forall>k. 0 < ival + int (delay svc k)" by blast
    have all: "continues (status_reply svc k) \<and>
            round_entry arn (status_reply svc k) = (ERROR, ''Error checking job status: '' @ reply_text k)" for k
      using h client_error_round by blast
    then have c: "\<forall>k \<ge> length (polls st). continues (status_reply svc k)" by blast
    from poll_loop_runs_out_exactly [OF ival adv c, of arn timeout "now st"] obtain m where
      r: "poll_loop svc arn ival timeout (now st) st =
               Some (Inl (timeout_error timeout),
                     (?after m)\<lparr>logged := logged (?after m) @ [timeout_entry arn timeout]\<rparr>)"
      and w: "\<forall>j<m. now (?after j) - now st \<le> timeout"
      and t: "timeout < now (?after m) - now st"
      by blast
    have pos: "0 \<le> timeout \<longrightarrow> 0 < m"
      using t by (cases m) (simp_all add: after_rounds_0)
    have l: "logged (?after m) =
                  logged st @ map (\<lambda>j. (ERROR, ''Error checking job status: '' @ reply_text (length (polls st) + j)))
                              [0..<m]"
      unfolding after_rounds_logged using all by simp
    from r w t pos l show ?thesis
      unfolding wait_for_job_completion_def Let_def by blast
  qed
  from resume after_rounds_polls [of svc arn ival st n] after_rounds_now [of svc arn ival st n] lg succ out
  show ?thesis by blast
qed

theorem query_errors_are_retried_witness:
  "(0::int) \<le> 5 \<and>
   wait_for_job_completion
     \<lparr>submit = Inr [''invocationArn'' \<mapsto> JStr ''job-1''],
      status_reply = (\<lambda>k. if k < 2 then Inl (ClientError ''ThrottlingException'')
                           else Inr [''status'' \<mapsto> JStr ''SUCCESS'']),
      delay = (\<lambda>k. Suc 0)\<rparr>
     ''job-1'' 5 60 worker_start =
   Some (Inr [''status'' \<mapsto> JStr ''SUCCESS''],
         \<lparr>now = 13, polls = [0, 6, 12],
          logged = [(ERROR, ''Error checking job status: ThrottlingException''),
                    (ERROR, ''Error checking job status: ThrottlingException''),
                    (DEBUG, ''Job job-1 completed successfully'')]\<rparr>) \<and>
   wait_for_job_completion
     \<lparr>submit = Inr [''invocationArn'' \<mapsto> JStr ''job-1''],
      status_reply = (\<lambda>k. Inl (ClientError ''ThrottlingException'')),
      delay = (\<lambda>k. Suc 0)\<rparr>
     ''job-1'' 5 10 worker_start =
   Some (Inl (timeout_error 10),
         \<lparr>now = 12, polls = [0, 6],
          logged = [(ERROR, ''Error checking job status: ThrottlingException''),
                    (ERROR, ''Error checking job status: ThrottlingException''),
                    timeout_entry ''job-1'' 10]\<rparr>)"
proof -
  let ?svc = "\<lparr>submit = Inr [''invocationArn'' \<mapsto> JStr ''job-1''],
      status_reply = (\<lambda>k. if k < 2 then Inl (ClientError ''ThrottlingException'')
                           else Inr [''status'' \<mapsto> JStr ''SUCCESS'']),
      delay = (\<lambda>k. Suc 0)\<rparr>"
  have two: "j < 2 \<longleftrightarrow> j = 0 \<or> j = Suc 0" for j :: nat by auto
  have r1: "after_rounds ?svc ''job-1'' 5 worker_start (Suc 0) =
              \<lparr>now = 6, polls = [0], logged = [(ERROR, ''Error checking job status: ThrottlingException'')]\<rparr>"
    by (simp add: after_rounds_def next_round_def worker_start_def round_entry_def)
  have r2: "after_rounds ?svc ''job-1'' 5 worker_start 2 =
              \<lparr>now = 12, polls = [0, 6],
               logged = [(ERROR, ''Error checking job status: ThrottlingException''),
                         (ERROR, ''Error checking job status: ThrottlingException'')]\<rparr>"
    by (simp add: after_rounds_def next_round_def worker_start_def round_entry_def numeral_2_eq_2)
  have h1: "(0::int) \<le> 5" by simp
  have h2: "\<forall>j<2. status_reply ?svc (length (polls worker_start) + j) =
              Inl (ClientError ((\<lambda>j. ''ThrottlingException'') j))"
    by (simp add: worker_start_def)
  have h3: "\<forall>j<2. now (after_rounds ?svc ''job-1'' 5 worker_start j) - now worker_start \<le> 60"
    by (simp add: two after_rounds_def next_round_def worker_start_def)
  have ws: "polls worker_start = []" "now worker_start = 0"
    by (simp_all add: worker_start_def)
  from query_errors_are_retried [OF h1 h2 h3, THEN conjunct2, THEN conjunct2, THEN conjunct2,
      THEN conjunct2, THEN conjunct1, rule_format, of "[''status'' \<mapsto> JStr ''SUCCESS'']"]
  have later: "wait_for_job_completion ?svc ''job-1'' 5 60 worker_start =
      Some (Inr [''status'' \<mapsto> JStr ''SUCCESS''],
            \<lparr>now = 13, polls = [0, 6, 12],
             logged = [(ERROR, ''Error checking job status: ThrottlingException''),
                       (ERROR, ''Error checking job status: ThrottlingException''),
                       (DEBUG, ''Job job-1 completed successfully'')]\<rparr>)"
    by (simp add: r2 ws success_state_def dict_get_def)
  let ?always = "\<lparr>submit = Inr [''invocationArn'' \<mapsto> JStr ''job-1''],
      status_reply = (\<lambda>k. Inl (ClientError ''ThrottlingException'')),
      delay = (\<lambda>k. Suc 0)\<rparr>"
  have a2: "\<forall>j<0. status_reply ?always (length (polls worker_start) + j) =
              Inl (ClientError ((\<lambda>j. ''ThrottlingException'') j))"
    by simp
  have a3: "\<forall>j<0. now (after_rounds ?always ''job-1'' 5 worker_start j) - now worker_start \<le> 10"
    by simp
  have a4: "(\<forall>k. 0 < 5 + int (delay ?always k)) \<and>
            (\<forall>k. status_reply ?always k = Inl (ClientError ((\<lambda>k. ''ThrottlingException'') k)))"
    by simp
  from query_errors_are_retried [OF h1 a2 a3, THEN conjunct2, THEN conjunct2, THEN conjunct2,
      THEN conjunct2, THEN conjunct2, THEN mp, OF a4]
  obtain m where
    r: "wait_for_job_completion ?always ''job-1'' 5 10 worker_start =
          Some (Inl (timeout_error 10),
                (after_rounds ?always ''job-1'' 5 worker_start m)
                  \<lparr>logged := logged (after_rounds ?always ''job-1'' 5 worker_start m)
                              @ [timeout_entry ''job-1'' 10]\<rparr>)"
    and w: "\<forall>j<m. now (after_rounds ?always ''job-1'' 5 worker_start j) - now worker_start \<le> 10"
    and t: "10 < now (after_rounds ?always ''job-1'' 5 worker_start m) - now worker_start"
    by blast
  have clock: "now (after_rounds ?always ''job-1'' 5 worker_start j) = 6 * int j" for j
    by (simp add: after_rounds_now ws)
  from t have "2 \<le> m" by (simp add: clock ws)
  moreover have "m < 3"
  proof (rule ccontr)
    assume "\<not> m < 3"
    then have "2 < m" by simp
    with w have "now (after_rounds ?always ''job-1'' 5 worker_start 2) - now worker_start \<le> 10"
      by blast
    then show False by (simp add: clock ws)
  qed
  ultimately have m: "m = 2" by simp
  have always2: "after_rounds ?always ''job-1'' 5 worker_start 2 =
              \<lparr>now = 12, polls = [0, 6],
               logged = [(ERROR, ''Error checking job status: ThrottlingException''),
                         (ERROR, ''Error checking job status: ThrottlingException'')]\<rparr>"
    by (simp add: after_rounds_def next_round_def worker_start_def round_entry_def dict_get_def
          py_str_def numeral_2_eq_2)
  from r have persistent: "wait_for_job_completion ?always ''job-1'' 5 10 worker_start =
      Some (Inl (timeout_error 10),
            \<lparr>now = 12, polls = [0, 6],
             logged = [(ERROR, ''Error checking job status: ThrottlingException''),
                       (ERROR, ''Error checking job status: ThrottlingException''),
                       timeout_entry ''job-1'' 10]\<rparr>)"
    unfolding m always2 by simp
  from h1 later persistent show ?thesis by (intro conjI)
qed


section \<open>Unknown statuses\<close>

text \<open>
  Claim C9. A status reply whose status is none of SUCCESS, FAILED, IN\_PROGRESS and
  PENDING does not end the poll loop. As long as the first \<open>n\<close> replies carry such a status
  and each of these rounds starts within the timeout window, \<open>wait_for_job_completion\<close> is
  the loop resumed after \<open>n\<close> rounds: it has made \<open>n\<close> queries, has slept the same poll
  interval after each of them as after a pending reply (the clock has advanced by the
  service delays plus \<open>n\<close> poll intervals), and has logged one warning line per reply,
  naming the status. The loop honours a later reply: when the query after these \<open>n\<close>
  replies, still within the window, reports SUCCESS, the poller returns that response.
  When every reply carries an unknown status and time advances, the poller keeps
  querying in every round that starts within the window, and it ends with the timeout
  error at the first round that starts past the window; no other error is raised.
\<close>

theorem unknown_status_is_retried:
  assumes ival: "0 \<le> ival"
    and unknown: "\<forall>j<n. status_reply svc (length (polls st) + j) = Inr (response j) \<and>
                    dict_get (response j) ''status'' JNull \<notin>
                      {JStr ''SUCCESS'', JStr ''FAILED'', JStr ''IN_PROGRESS'', JStr ''PENDING''}"
    and window: "\<forall>j<n. now (after_rounds svc arn ival st j) - now st \<le> timeout"
  shows "wait_for_job_completion svc arn ival timeout st =
           poll_loop svc arn ival timeout (now st) (after_rounds svc arn ival st n) \<and>
         polls (after_rounds svc arn ival st n) =
           polls st @ map (\<lambda>j. now (after_rounds svc arn ival st j)) [0..<n] \<and>
         now (after_rounds svc arn ival st n) =
           now st + (\<Sum>j<n. int (delay svc (length (polls st) + j)) + ival) \<and>
         logged (after_rounds svc arn ival st n) =
           logged st @ map (\<lambda>j. (WARNING, ''Job '' @ arn @ '' has unknown status: ''
                                          @ py_str (dict_get (response j) ''status'' JNull))) [0..<n] \<and>
         (\<forall>final.
            status_reply svc (length (polls st) + n) = Inr final \<and>
            dict_get final ''status'' JNull = JStr ''SUCCESS'' \<and>
            now (after_rounds svc arn ival st n) - now st \<le> timeout \<longrightarrow>
            wait_for_job_completion svc arn ival timeout st =
              Some (Inr final, success_state svc arn (after_rounds svc arn ival st n))) \<and>
         ((\<forall>k. 0 < ival + int (delay svc k)) \<and>
          (\<forall>k. status_reply svc k = Inr (reply k) \<and>
               dict_get (reply k) ''status'' JNull \<notin>
                 {JStr ''SUCCESS'', JStr ''FAILED'', JStr ''IN_PROGRESS'', JStr ''PENDING''}) \<longrightarrow>
          (\<exists>m. wait_for_job_completion svc arn ival timeout st =
                  Some (Inl (timeout_error timeout),
                        (after_rounds svc arn ival st m)
                          \<lparr>logged := logged (after_rounds svc arn ival st m) @ [timeout_entry arn timeout]\<rparr>) \<and>
                (\<forall>j<m. now (after_rounds svc arn ival st j) - now st \<le> timeout) \<and>
                timeout < now (after_rounds svc arn ival st m) - now st \<and>
                (0 \<le> timeout \<longrightarrow> 0 < m) \<and>
                logged (after_rounds svc arn ival st m) =
                  logged st @ map (\<lambda>j. (WARNING, ''Job '' @ arn @ '' has unknown status: ''
                       @ py_str (dict_get (reply (length (polls st) + j)) ''status'' JNull))) [0..<m]))"
proof -
  let ?after = "after_rounds svc arn ival st"
  have un: "continues (status_reply svc (length (polls st) + j)) \<and>
            round_entry arn (status_reply svc (length (polls st) + j)) =
              (WARNING, ''Job '' @ arn @ '' has unknown status: ''
                          @ py_str (dict_get (response j) ''status'' JNull))" if "j < n" for j
    using unknown that unknown_round by blast
  have cont: "\<forall>j<n. continues (status_reply svc (length (polls st) + j))"
    using un by blast
  have resume: "wait_for_job_completion svc arn ival timeout st =
           poll_loop svc arn ival timeout (now st) (?after n)"
    unfolding wait_for_job_completion_def Let_def
    by (rule poll_loop_after_rounds [OF ival cont window])
  have lg: "logged (?after n) =
           logged st @ map (\<lambda>j. (WARNING, ''Job '' @ arn @ '' has unknown status: ''
                                          @ py_str (dict_get (response j) ''status'' JNull))) [0..<n]"
    unfolding after_rounds_logged using un by simp
  have succ: "wait_for_job_completion svc arn ival timeout st =
              Some (Inr final, success_state svc arn (?after n))"
    if "status_reply svc (length (polls st) + n) = Inr final \<and>
        dict_get final ''status'' JNull = JStr ''SUCCESS'' \<and>
        now (?after n) - now st \<le> timeout" for final
  proof -
    have "poll_loop svc arn ival timeout (now st) (?after n) =
            Some (Inr final, success_state svc arn (?after n))"
      using that by (intro poll_loop_success) (simp_all add: after_rounds_polls_length)
    with resume show ?thesis by simp
  qed
  have out: "\<exists>m. wait_for_job_completion svc arn ival timeout st =
                  Some (Inl (timeout_error timeout),
                        (?after m)\<lparr>logged := logged (?after m) @ [timeout_entry arn timeout]\<rparr>) \<and>
                (\<forall>j<m. now (?after j) - now st \<le> timeout) \<and>
                timeout < now (?after m) - now st \<and>
                (0 \<le> timeout \<longrightarrow> 0 < m) \<and>
                logged (?after m) =
                  logged st @ map (\<lambda>j. (WARNING, ''Job '' @ arn @ '' has unknown status: ''
                       @ py_str (dict_get (reply (length (polls st) + j)) ''status'' JNull))) [0..<m]"
    if h: "(\<forall>k. 0 < ival + int (delay svc k)) \<and>
          (\<forall>k. status_reply svc k = Inr (reply k) \<and>
               dict_get (reply k) ''status'' JNull \<notin>
                 {JStr ''SUCCESS'', JStr ''FAILED'', JStr ''IN_PROGRESS'', JStr ''PENDING''})"
  proof -
    from h have adv: "\<forall>k. 0 < ival + int (delay svc k)" by blast
    have all: "continues (status_reply svc k) \<and>
            round_entry arn (status_reply svc k) =
              (WARNING, ''Job '' @ arn @ '' has unknown status: ''
                          @ py_str (dict_get (reply k) ''status'' JNull))" for k
      using h unknown_round by blast
    then have c: "\<forall>k \<ge> length (polls st). continues (status_reply svc k)" by blast
    from poll_loop_runs_out_exactly [OF ival adv c, of arn timeout "now st"] obtain m where
      r: "poll_loop svc arn ival timeout (now st) st =
               Some (Inl (timeout_error timeout),
                     (?after m)\<lparr>logged := logged (?after m) @ [timeout_entry arn timeout]\<rparr>)"
      and w: "\<forall>j<m. now (?after j) - now st \<le> timeout"
      and t: "timeout < now (?after m) - now st"
      by blast
    have pos: "0 \<le> timeout \<longrightarrow> 0 < m"
      using t by (cases m) (simp_all add: after_rounds_0)
    have l: "logged (?after m) =
                  logged st @ map (\<lambda>j. (WARNING, ''Job '' @ arn @ '' has unknown status: ''
                       @ py_str (dict_get (reply (length (polls st) + j)) ''status'' JNull))) [0..<m]"
      unfolding after_rounds_logged using all by simp
    from r w t pos l show ?thesis
      unfolding wait_for_job_completion_def Let_def by blast
  qed
  from resume after_rounds_polls [of svc arn ival st n] after_rounds_now [of svc arn ival st n] lg succ out
  show ?thesis by blast
qed

theorem unknown_status_is_retried_witness:
  "(0::int) \<le> 5 \<and>
   wait_for_job_completion
     \<lparr>submit = Inr [''invocationArn'' \<mapsto> JStr ''job-1''],
      status_reply = (\<lambda>k. if k < 2 then Inr [''status'' \<mapsto> JStr ''QUEUED'']
                           else Inr [''status'' \<mapsto> JStr ''SUCCESS'']),
      delay = (\<lambda>k. Suc 0)\<rparr>
     ''job-1'' 5 60 worker_start =
   Some (Inr [''status'' \<mapsto> JStr ''SUCCESS''],
         \<lparr>now = 13, polls = [0, 6, 12],
          logged = [(WARNING, ''Job job-1 has unknown status: QUEUED''),
                    (WARNING, ''Job job-1 has unknown status: QUEUED''),
                    (DEBUG, ''Job job-1 completed successfully'')]\<rparr>) \<and>
   wait_for_job_completion
     \<lparr>submit = Inr [''invocationArn'' \<mapsto> JStr ''job-1''],
      status_reply = (\<lambda>k. Inr [''status'' \<mapsto> JStr ''QUEUED'']),
      delay = (\<lambda>k. Suc 0)\<rparr>
     ''job-1'' 5 10 worker_start =
   Some (Inl (timeout_error 10),
         \<lparr>now = 12, polls = [0, 6],
          logged = [(WARNING, ''Job job-1 has unknown status: QUEUED''),
                    (WARNING, ''Job job-1 has unknown status: QUEUED''),
                    timeout_entry ''job-1'' 10]\<rparr>)"
proof -
  let ?svc = "\<lparr>submit = Inr [''invocationArn'' \<mapsto> JStr ''job-1''],
      status_reply = (\<lambda>k. if k < 2 then Inr [''status'' \<mapsto> JStr ''QUEUED'']
                           else Inr [''status'' \<mapsto> JStr ''SUCCESS'']),
      delay = (\<lambda>k. Suc 0)\<rparr>"
  have two: "j < 2 \<longleftrightarrow> j = 0 \<or> j = Suc 0" for j :: nat by auto
  have r2: "after_rounds ?svc ''job-1'' 5 worker_start 2 =
              \<lparr>now = 12, polls = [0, 6],
               logged = [(WARNING, ''Job job-1 has unknown status: QUEUED''),
                         (WARNING, ''Job job-1 has unknown status: QUEUED'')]\<rparr>"
    by (simp add: after_rounds_def next_round_def worker_start_def round_entry_def dict_get_def
          py_str_def numeral_2_eq_2)
  have h1: "(0::int) \<le> 5" by simp
  have h2: "\<forall>j<2. status_reply ?svc (length (polls worker_start) + j) =
                     Inr ((\<lambda>j. [''status'' \<mapsto> JStr ''QUEUED'']) j) \<and>
                   dict_get ((\<lambda>j. [''status'' \<mapsto> JStr ''QUEUED'']) j) ''status'' JNull \<notin>
                     {JStr ''SUCCESS'', JStr ''FAILED'', JStr ''IN_PROGRESS'', JStr ''PENDING''}"
    by (simp add: worker_start_def dict_get_def)
  have h3: "\<forall>j<2. now (after_rounds ?svc ''job-1'' 5 worker_start j) - now worker_start \<le> 60"
    by (simp add: two after_rounds_def next_round_def worker_start_def)
  have ws: "polls worker_start = []" "now worker_start = 0"
    by (simp_all add: worker_start_def)
  from unknown_status_is_retried [OF h1 h2 h3, THEN conjunct2, THEN conjunct2, THEN conjunct2,
      THEN conjunct2, THEN conjunct1, rule_format, of "[''status'' \<mapsto> JStr ''SUCCESS'']"]
  have later: "wait_for_job_completion ?svc ''job-1'' 5 60 worker_start =
      Some (Inr [''status'' \<mapsto> JStr ''SUCCESS''],
            \<lparr>now = 13, polls = [0, 6, 12],
             logged = [(WARNING, ''Job job-1 has unknown status: QUEUED''),
                       (WARNING, ''Job job-1 has unknown status: QUEUED''),
                       (DEBUG, ''Job job-1 completed successfully'')]\<rparr>)"
    by (simp add: r2 ws success_state_def dict_get_def)
  let ?always = "\<lparr>submit = Inr [''invocationArn'' \<mapsto> JStr ''job-1''],
      status_reply = (\<lambda>k. Inr [''status'' \<mapsto> JStr ''QUEUED'']),
      delay = (\<lambda>k. Suc 0)\<rparr>"
  have a2: "\<forall>j<0. status_reply ?always (length (polls worker_start) + j) =
                     Inr ((\<lambda>j. [''status'' \<mapsto> JStr ''QUEUED'']) j) \<and>
                   dict_get ((\<lambda>j. [''status'' \<mapsto> JStr ''QUEUED'']) j) ''status'' JNull \<notin>
                     {JStr ''SUCCESS'', JStr ''FAILED'', JStr ''IN_PROGRESS'', JStr ''PENDING''}"
    by simp
  have a3: "\<forall>j<0. now (after_rounds ?always ''job-1'' 5 worker_start j) - now worker_start \<le> 10"
    by simp
  have a4: "(\<forall>k. 0 < 5 + int (delay ?always k)) \<and>
            (\<forall>k. status_reply ?always k = Inr ((\<lambda>k. [''status'' \<mapsto> JStr ''QUEUED'']) k) \<and>
               dict_get ((\<lambda>k. [''status'' \<mapsto> JStr ''QUEUED'']) k) ''status'' JNull \<notin>
                 {JStr ''SUCCESS'', JStr ''FAILED'', JStr ''IN_PROGRESS'', JStr ''PENDING''})"
    by (simp add: dict_get_def)
  from unknown_status_is_retried [OF h1 a2 a3, THEN conjunct2, THEN conjunct2, THEN conjunct2,
      THEN conjunct2, THEN conjunct2, THEN mp, OF a4]
  obtain m where
    r: "wait_for_job_completion ?always ''job-1'' 5 10 worker_start =
          Some (Inl (timeout_error 10),
                (after_rounds ?always ''job-1'' 5 worker_start m)
                  \<lparr>logged := logged (after_rounds ?always ''job-1'' 5 worker_start m)
                              @ [timeout_entry ''job-1'' 10]\<rparr>)"
    and w: "\<forall>j<m. now (after_rounds ?always ''job-1'' 5 worker_start j) - now worker_start \<le> 10"
    and t: "10 < now (after_rounds ?always ''job-1'' 5 worker_start m) - now worker_start"
    by blast
  have clock: "now (after_rounds ?always ''job-1'' 5 worker_start j) = 6 * int j" for j
    by (simp add: after_rounds_now ws)
  from t have "2 \<le> m" by (simp add: clock ws)
  moreover have "m < 3"
  proof (rule ccontr)
    assume "\<not> m < 3"
    then have "2 < m" by simp
    with w have "now (after_rounds ?always ''job-1'' 5 worker_start 2) - now worker_start \<le> 10"
      by blast
    then show False by (simp add: clock ws)
  qed
  ultimately have m: "m = 2" by simp
  have always2: "after_rounds ?always ''job-1'' 5 worker_start 2 =
              \<lparr>now = 12, polls = [0, 6],
               logged = [(WARNING, ''Job job-1 has unknown status: QUEUED''),
                         (WARNING, ''Job job-1 has unknown status: QUEUED'')]\<rparr>"
    by (simp add: after_rounds_def next_round_def worker_start_def round_entry_def dict_get_def
          py_str_def numeral_2_eq_2)
  from r have persistent: "wait_for_job_completion ?always ''job-1'' 5 10 worker_start =
      Some (Inl (timeout_error 10),
            \<lparr>now = 12, polls = [0, 6],
             logged = [(WARNING, ''Job job-1 has unknown status: QUEUED''),
                       (WARNING, ''Job job-1 has unknown status: QUEUED''),
                       timeout_entry ''job-1'' 10]\<rparr>)"
    unfolding m always2 by simp
  from h1 later persistent show ?thesis by (intro conjI)
qed

section \<open>Normalisation of values\<close>

lemma py_join_length:
  "length (py_join sep parts) = sum_list (map length parts) + length sep * (length parts - 1)"
  by (induction sep parts rule: py_join.induct) simp_all

text \<open>
  Claim C7. A list value is normalised element by element; the elements whose
  normalised form is empty are dropped and the others are joined with the separator
  of the field: \<open>", "\<close> by default, the bare \<open>","\<close> for \<open>LogoOnForm\<close>, the only field
  with a rule of its own. No separator is stray: the length of the result is the
  lengths of the elements' forms plus one separator between each two non-empty ones.
  \<open>["a", "", "b"]\<close> gives \<open>"a, b"\<close> by default and \<open>"a,b"\<close> for \<open>LogoOnForm\<close>. A scalar
  is rendered by \<open>str\<close>, and \<open>None\<close> as the empty string.
\<close>

theorem normalize_value_join_rule:
  "normalize_value (JList items) field_name =
     py_join (joiner field_name)
       (filter (\<lambda>s. s \<noteq> []) (map (\<lambda>item. normalize_value item field_name) items)) \<and>
   joiner None = '', '' \<and>
   joiner (Some ''LogoOnForm'') = '','' \<and>
   (field_name \<noteq> Some ''LogoOnForm'' \<longrightarrow> joiner field_name = '', '') \<and>
   length (normalize_value (JList items) field_name) =
     sum_list (map (\<lambda>item. length (normalize_value item field_name)) items) +
     length (joiner field_name) *
       (length (filter (\<lambda>item. normalize_value item field_name \<noteq> []) items) - 1) \<and>
   normalize_value (JList [JStr ''a'', JStr '''', JStr ''b'']) None = ''a, b'' \<and>
   normalize_value (JList [JStr ''a'', JStr '''', JStr ''b'']) (Some ''LogoOnForm'') = ''a,b'' \<and>
   normalize_value (JStr s) field_name = s \<and>
   normalize_value (JInt i) field_name = str_int i \<and>
   normalize_value (JBool b) field_name = (if b then ''True'' else ''False'') \<and>
   normalize_value (JDict d) field_name = py_str (JDict d) \<and>
   normalize_value JNull field_name = ''''"
proof -
  have j: "field_name \<noteq> Some ''LogoOnForm'' \<longrightarrow> joiner field_name = '', ''"
    by (cases field_name) (auto simp: joiner_def FIELD_JOIN_RULES_def)
  have sum: "sum_list (map length (filter (\<lambda>s. s \<noteq> []) (map f xs))) = sum_list (map (\<lambda>x. length (f x)) xs)"
    for f :: "json \<Rightarrow> string" and xs
    by (induction xs) simp_all
  have len: "length (filter (\<lambda>s. s \<noteq> []) (map f xs)) = length (filter (\<lambda>x. f x \<noteq> []) xs)"
    for f :: "json \<Rightarrow> string" and xs
    by (induction xs) simp_all
  have l: "length (normalize_value (JList items) field_name) =
     sum_list (map (\<lambda>item. length (normalize_value item field_name)) items) +
     length (joiner field_name) *
       (length (filter (\<lambda>item. normalize_value item field_name \<noteq> []) items) - 1)"
    by (simp add: py_join_length sum len comp_def)
  show ?thesis
    using j l by (simp add: joiner_def FIELD_JOIN_RULES_def py_str_def)
qed

theorem normalize_value_join_rule_witness:
  "normalize_value (JList [JStr ''x'', JNull, JList [JStr ''y'', JStr ''z''], JStr '''', JBool True])
      (Some ''NameOnForm'') = ''x, y, z, True'' \<and>
   length (normalize_value (JList [JStr ''x'', JNull, JList [JStr ''y'', JStr ''z''], JStr '''', JBool True])
      (Some ''NameOnForm'')) = 1 + 0 + 4 + 0 + 4 + 2 * (3 - 1)"
  using normalize_value_join_rule
          [of "[JStr ''x'', JNull, JList [JStr ''y'', JStr ''z''], JStr '''', JBool True]" "Some ''NameOnForm''"]
  by (simp add: py_str_def joiner_def FIELD_JOIN_RULES_def)

section \<open>The exported table\<close>

lemma header_split:
  "filter (df_has_column results) (base_columns @ metadata_columns include_metadata) =
     base_columns @ filter (\<lambda>col. list_ex (\<lambda>r. r col \<noteq> None) results) (metadata_columns include_metadata)"
proof -
  have b: "filter (df_has_column results) base_columns = base_columns"
    by (rule filter_True) (simp add: df_has_column_def)
  have m: "filter (df_has_column results) (metadata_columns include_metadata) =
           filter (\<lambda>col. list_ex (\<lambda>r. r col \<noteq> None) results) (metadata_columns include_metadata)"
    by (rule filter_cong)
       (auto simp: df_has_column_def metadata_columns_def base_columns_def schema_fields_def)
  show ?thesis by (simp add: b m)
qed

text \<open>
  Claim C10, as amended. The header of the table that \<open>export_results_to_csv\<close> writes is
  \<open>document\<close>, then every schema field name, then, when metadata is enabled, those of
  the metadata columns \<open>s3_uri\<close>, \<open>processing_status\<close>, \<open>error_message\<close>,
  \<open>output_s3_uri\<close> (in this order) that are a key of at least one result: a metadata
  column that no result carries is left out, so the header is not fixed. The table that
  \<open>build_csv\<close> writes has the given field names as its header and no metadata columns.
  In both tables every row holds a value for every column of the header, the empty
  string when the row's record lacks the field. The claim as stated fails for a run of
  successes only, whose header has neither \<open>error_message\<close> nor \<open>output_s3_uri\<close>.
\<close>

theorem export_table_layout:
  "csv_header (fst (export_results_to_csv results include_metadata)) =
     (''document'' # schema_fields) @
     filter (\<lambda>col. list_ex (\<lambda>r. r col \<noteq> None) results) (metadata_columns include_metadata) \<and>
   csv_rows (fst (export_results_to_csv results include_metadata)) =
     map (\<lambda>r. map (cell r) (csv_header (fst (export_results_to_csv results include_metadata)))) results \<and>
   (r col = None \<longrightarrow> cell r col = JStr '''') \<and>
   (build_csv paginate output_s3_uri fieldnames write_error = Inr t \<longrightarrow>
      csv_header t = fieldnames \<and>
      (\<exists>records. iter_job_records paginate output_s3_uri = Inr records \<and>
         csv_rows t = map (\<lambda>record. map (\<lambda>field. case map_of record field of
                                                      None \<Rightarrow> '''' | Some v \<Rightarrow> v) fieldnames) records))"
proof -
  have h: "csv_header (fst (export_results_to_csv results include_metadata)) =
     (''document'' # schema_fields) @
     filter (\<lambda>col. list_ex (\<lambda>r. r col \<noteq> None) results) (metadata_columns include_metadata)"
    using header_split [of results include_metadata]
    by (simp add: export_results_to_csv_def Let_def base_columns_def)
  have rw: "csv_rows (fst (export_results_to_csv results include_metadata)) =
     map (\<lambda>r. map (cell r) (csv_header (fst (export_results_to_csv results include_metadata)))) results"
    by (simp add: export_results_to_csv_def Let_def)
  have c: "r col = None \<longrightarrow> cell r col = JStr ''''"
    by (simp add: cell_def)
  have bc: "build_csv paginate output_s3_uri fieldnames write_error = Inr t \<longrightarrow>
      csv_header t = fieldnames \<and>
      (\<exists>records. iter_job_records paginate output_s3_uri = Inr records \<and>
         csv_rows t = map (\<lambda>record. map (\<lambda>field. case map_of record field of
                                                      None \<Rightarrow> '''' | Some v \<Rightarrow> v) fieldnames) records)"
    by (auto simp: build_csv_def split: sum.splits option.splits)
  from h rw c bc show ?thesis by (intro conjI)
qed

theorem export_table_layout_counterexample:
  "csv_header (fst (export_results_to_csv
      [[''document'' \<mapsto> JStr ''a.pdf'', ''processing_status'' \<mapsto> JStr ''success'',
        ''s3_uri'' \<mapsto> JStr ''s3://docs/in/a.pdf'']] True)) =
     ''document'' # schema_fields @ [''s3_uri'', ''processing_status''] \<and>
   csv_header (fst (export_results_to_csv
      [[''document'' \<mapsto> JStr ''a.pdf'', ''processing_status'' \<mapsto> JStr ''success'',
        ''s3_uri'' \<mapsto> JStr ''s3://docs/in/a.pdf'']] True)) \<noteq>
     ''document'' # schema_fields @ [''s3_uri'', ''processing_status'', ''error_message'', ''output_s3_uri'']"
  by (simp add: export_results_to_csv_def Let_def base_columns_def schema_fields_def
        metadata_columns_def df_has_column_def)

theorem export_table_layout_witness:
  "csv_header (fst (export_results_to_csv
      [[''document'' \<mapsto> JStr ''a.pdf'', ''processing_status'' \<mapsto> JStr ''error'',
        ''s3_uri'' \<mapsto> JStr ''s3://docs/in/a.pdf'', ''error_message'' \<mapsto> JStr ''AccessDenied'']] True)) =
     ''document'' # schema_fields @ [''s3_uri'', ''processing_status'', ''error_message''] \<and>
   csv_rows (fst (export_results_to_csv
      [[''document'' \<mapsto> JStr ''a.pdf'', ''processing_status'' \<mapsto> JStr ''error'',
        ''s3_uri'' \<mapsto> JStr ''s3://docs/in/a.pdf'', ''error_message'' \<mapsto> JStr ''AccessDenied'']] True)) =
     [JStr ''a.pdf'' # replicate 10 (JStr '''') @
      [JStr ''s3://docs/in/a.pdf'', JStr ''error'', JStr ''AccessDenied'']]"
  using export_table_layout [of
      "[[''document'' \<mapsto> JStr ''a.pdf'', ''processing_status'' \<mapsto> JStr ''error'',
        ''s3_uri'' \<mapsto> JStr ''s3://docs/in/a.pdf'', ''error_message'' \<mapsto> JStr ''AccessDenied'']]" True]
  by (simp add: metadata_columns_def schema_fields_def cell_def numeral_eq_Suc)

section \<open>The summary\<close>

text \<open>
  Claim C3, as amended. The percentages of the summary divide by the number of rows:
  for a result list that is not empty the success percentage is the number of
  successes over the number of rows, times 100, and the failure percentage likewise;
  10 rows with 7 successes give 70 and 30. For a result list with no rows
  \<open>export_results_to_csv\<close> does not report 0: it writes the (empty) table and then
  raises \<open>ZeroDivisionError\<close>. A run does not get there: \<open>main\<close> returns before any
  processing or export when the listing finds no document.
\<close>

theorem summary_percentages:
  "(results \<noteq> [] \<longrightarrow>
      (\<exists>s. snd (export_results_to_csv results include_metadata) = Inr s \<and>
           total_docs s = length results \<and>
           successful s = length (filter is_success results) \<and>
           failed s = total_docs s - successful s \<and>
           successful_pct s = real (successful s) / real (total_docs s) * 100 \<and>
           failed_pct s = real (failed s) / real (total_docs s) * 100)) \<and>
   (length results = 10 \<and> length (filter is_success results) = 7 \<longrightarrow>
      (\<exists>s. snd (export_results_to_csv results include_metadata) = Inr s \<and>
           successful_pct s = 70 \<and> failed_pct s = 30)) \<and>
   snd (export_results_to_csv [] include_metadata) = Inl (ZeroDivisionError ''division by zero'') \<and>
   (\<exists>r. main json_loads cfg project_info (Inr []) dry_run client input_bucket order upload =
          Some \<lparr>outcome = r, processed = [], written = None\<rparr>)"
proof (intro conjI impI)
  assume "results \<noteq> []"
  then show "\<exists>s. snd (export_results_to_csv results include_metadata) = Inr s \<and>
           total_docs s = length results \<and>
           successful s = length (filter is_success results) \<and>
           failed s = total_docs s - successful s \<and>
           successful_pct s = real (successful s) / real (total_docs s) * 100 \<and>
           failed_pct s = real (failed s) / real (total_docs s) * 100"
    by (simp add: export_results_to_csv_def Let_def)
next
  assume "length results = 10 \<and> length (filter is_success results) = 7"
  then show "\<exists>s. snd (export_results_to_csv results include_metadata) = Inr s \<and>
           successful_pct s = 70 \<and> failed_pct s = 30"
    by (simp add: export_results_to_csv_def Let_def)
next
  show "snd (export_results_to_csv [] include_metadata) = Inl (ZeroDivisionError ''division by zero'')"
    by (simp add: export_results_to_csv_def Let_def)
next
  show "\<exists>r. main json_loads cfg project_info (Inr []) dry_run client input_bucket order upload =
          Some \<lparr>outcome = r, processed = [], written = None\<rparr>"
    by (simp add: main_def Let_def split: sum.splits option.splits)
qed

theorem summary_percentages_counterexample:
  "snd (export_results_to_csv [] True) = Inl (ZeroDivisionError ''division by zero'')"
  by (simp add: export_results_to_csv_def Let_def)

theorem summary_percentages_witness:
  "length (replicate 7 [''document'' \<mapsto> JStr ''ok.pdf'', ''processing_status'' \<mapsto> JStr ''success''] @
           replicate 3 [''document'' \<mapsto> JStr ''bad.pdf'', ''processing_status'' \<mapsto> JStr ''error'',
                        ''error_message'' \<mapsto> JStr ''Job failed: Unknown error'']) = 10 \<and>
   (\<exists>s. snd (export_results_to_csv
              (replicate 7 [''document'' \<mapsto> JStr ''ok.pdf'', ''processing_status'' \<mapsto> JStr ''success''] @
               replicate 3 [''document'' \<mapsto> JStr ''bad.pdf'', ''processing_status'' \<mapsto> JStr ''error'',
                            ''error_message'' \<mapsto> JStr ''Job failed: Unknown error'']) True) = Inr s \<and>
        successful_pct s = 70 \<and> failed_pct s = 30)"
  using summary_percentages [of
      "replicate 7 [''document'' \<mapsto> JStr ''ok.pdf'', ''processing_status'' \<mapsto> JStr ''success''] @
       replicate 3 [''document'' \<mapsto> JStr ''bad.pdf'', ''processing_status'' \<mapsto> JStr ''error'',
                    ''error_message'' \<mapsto> JStr ''Job failed: Unknown error'']" True]
  by (simp add: is_success_def dict_get_def)

section \<open>Read-back of stored results\<close>










section \<open>Configuration validation\<close>














section \<open>A failed submission\<close>

lemma failed_submission_row:
  assumes "submit svc = Inl e"
  shows "\<exists>st'. process_single_document json_loads svc bucket key cfg st =
           Some (error_record (basename key) (document_uri bucket key) (JStr (str_exn e)), st') \<and>
         polls st' = polls st"
  using assms
  by (cases "is_ClientError e")
     (simp_all add: process_single_document_def invoke_document_processing_def worker_handler_def
        log_msg_def dict_get_def document_uri_def Let_def)

lemma error_record_cells:
  "\<forall>field \<in> set schema_fields. cell (error_record document_name s3_uri message) field = JStr ''''"
  by (simp add: schema_fields_def cell_def error_record_def)

text \<open>A failure inside the poller gives a row of the same shape, with the same status.\<close>

lemma poller_failure_row:
  assumes "submit svc = Inr response" and "response ''invocationArn'' = Some arn"
    and "processing cfg = Some p"
    and "wait_for_job_completion svc (py_str arn) (cfg_poll_interval p) (cfg_timeout p)
           (poller_entry_state bucket key (py_str arn) st) = Some (Inl e', st4)"
  shows "\<exists>st'. process_single_document json_loads svc bucket key cfg st =
           Some (error_record (basename key) (document_uri bucket key) (JStr (str_exn e')), st')"
  using assms
  by (simp add: process_single_document_def invoke_document_processing_def worker_handler_def
        poller_entry_state_def dict_get_def document_uri_def Let_def)

text \<open>
  Claim C6, as amended. When the submission call of a document raises (a client error
  or any other exception), the worker returns at once the error row of that document,
  with status \<open>error\<close> and the text of the exception, and makes no status query: the
  poller is never entered. In a run of the dispatcher, the row of that document is this
  error row, its schema fields are empty in the exported table, and the rows of the other
  documents do not depend on what the service does to the failed one: replacing the
  service's behaviour towards it leaves them unchanged. The status is not one of
  submission errors: the row of a document whose job was submitted and then failed in
  the poller (a timeout, a job reported \<open>FAILED\<close>) is the same error row, with status
  \<open>error\<close> and the text of that exception. In the run of three documents where the
  second submission raises, the table has three rows, the second document's row is the
  error row and the first and third are success rows. The claim as stated fails on the
  status: the row of the failed submission and the row of a job reported \<open>FAILED\<close> carry
  the same status \<open>error\<close> and differ in the error text only.
\<close>

theorem submission_failure_is_isolated:
  assumes perm: "mset order = mset [0..<length documents]"
    and p: "processing cfg = Some p" and b: "0 < cfg_batch_size p"
    and adv: "\<forall>j k. 0 < cfg_poll_interval p + int (delay (client j) k)"
    and i: "i < length documents"
    and fail: "submit (client i) = Inl e"
  shows "(\<forall>key st. \<exists>st'.
            process_single_document json_loads (client i) bucket key cfg st =
              Some (error_record (basename key) (document_uri bucket key) (JStr (str_exn e)), st') \<and>
            polls st' = polls st) \<and>
         (\<forall>field \<in> set schema_fields.
            cell (error_record (basename (documents ! i)) (document_uri bucket (documents ! i))
                    (JStr (str_exn e))) field = JStr '''') \<and>
         error_record (basename (documents ! i)) (document_uri bucket (documents ! i))
           (JStr (str_exn e)) ''processing_status'' = Some (JStr ''error'') \<and>
         error_record (basename (documents ! i)) (document_uri bucket (documents ! i))
           (JStr (str_exn e)) ''error_message'' = Some (JStr (str_exn e)) \<and>
         (\<exists>results.
            process_documents_batch json_loads client documents bucket cfg order = Some (Inr results) \<and>
            length results = length documents \<and>
            (\<forall>k < length results. order ! k = i \<longrightarrow>
               results ! k = error_record (basename (documents ! i)) (document_uri bucket (documents ! i))
                               (JStr (str_exn e))) \<and>
            (\<forall>svc'. (\<forall>k. 0 < cfg_poll_interval p + int (delay svc' k)) \<longrightarrow>
               (\<exists>results'.
                  process_documents_batch json_loads (client(i := svc')) documents bucket cfg order =
                    Some (Inr results') \<and>
                  length results' = length documents \<and>
                  (\<forall>k < length results. order ! k \<noteq> i \<longrightarrow> results' ! k = results ! k)))) \<and>
         (\<forall>svc key st response arn e' st4.
            submit svc = Inr response \<and> response ''invocationArn'' = Some arn \<and>
            wait_for_job_completion svc (py_str arn) (cfg_poll_interval p) (cfg_timeout p)
              (poller_entry_state bucket key (py_str arn) st) = Some (Inl e', st4) \<longrightarrow>
            (\<exists>st'. process_single_document json_loads svc bucket key cfg st =
                     Some (error_record (basename key) (document_uri bucket key) (JStr (str_exn e')), st')) \<and>
            error_record (basename key) (document_uri bucket key) (JStr (str_exn e')) ''processing_status'' =
              error_record (basename (documents ! i)) (document_uri bucket (documents ! i))
                (JStr (str_exn e)) ''processing_status'')"
proof -
  let ?w = "\<lambda>c j. process_single_document json_loads (c j) bucket (documents ! j) cfg worker_start"
  let ?results = "\<lambda>c. map (\<lambda>j. fst (the (?w c j))) order"
  let ?row = "error_record (basename (documents ! i)) (document_uri bucket (documents ! i)) (JStr (str_exn e))"
  from failed_submission_row [OF fail, of json_loads bucket "documents ! i" cfg worker_start]
  obtain st' where wi: "?w client i = Some (?row, st')" and pl: "polls st' = polls worker_start"
    by blast
  have first: "\<forall>key st. \<exists>st'.
            process_single_document json_loads (client i) bucket key cfg st =
              Some (error_record (basename key) (document_uri bucket key) (JStr (str_exn e)), st') \<and>
            polls st' = polls st"
    using failed_submission_row [OF fail] by blast
  have status: "?row ''processing_status'' = Some (JStr ''error'') \<and>
                ?row ''error_message'' = Some (JStr (str_exn e))"
    by (simp add: error_record_def)
  have second: "\<forall>field \<in> set schema_fields. cell ?row field = JStr ''''"
    by (rule error_record_cells)
  have len: "length order = length documents"
    using mset_eq_length [OF perm] by simp
  have run: "process_documents_batch json_loads client documents bucket cfg order = Some (Inr (?results client))"
    by (rule batch_results [OF p b adv])
  have at_i: "\<forall>k < length (?results client). order ! k = i \<longrightarrow> ?results client ! k = ?row"
    using wi by simp
  have others: "\<exists>results'.
                  process_documents_batch json_loads (client(i := svc')) documents bucket cfg order =
                    Some (Inr results') \<and>
                  length results' = length documents \<and>
                  (\<forall>k < length (?results client). order ! k \<noteq> i \<longrightarrow> results' ! k = ?results client ! k)"
    if "\<forall>k. 0 < cfg_poll_interval p + int (delay svc' k)" for svc'
  proof -
    have adv': "\<forall>j k. 0 < cfg_poll_interval p + int (delay ((client(i := svc')) j) k)"
      using adv that by simp
    have run': "process_documents_batch json_loads (client(i := svc')) documents bucket cfg order =
                  Some (Inr (?results (client(i := svc'))))"
      by (rule batch_results [OF p b adv'])
    have "\<forall>k < length (?results client). order ! k \<noteq> i \<longrightarrow>
            ?results (client(i := svc')) ! k = ?results client ! k"
      by simp
    with run' len show ?thesis by (intro exI [of _ "?results (client(i := svc'))"]) simp
  qed
  have third: "\<exists>results.
            process_documents_batch json_loads client documents bucket cfg order = Some (Inr results) \<and>
            length results = length documents \<and>
            (\<forall>k < length results. order ! k = i \<longrightarrow> results ! k = ?row) \<and>
            (\<forall>svc'. (\<forall>k. 0 < cfg_poll_interval p + int (delay svc' k)) \<longrightarrow>
               (\<exists>results'.
                  process_documents_batch json_loads (client(i := svc')) documents bucket cfg order =
                    Some (Inr results') \<and>
                  length results' = length documents \<and>
                  (\<forall>k < length results. order ! k \<noteq> i \<longrightarrow> results' ! k = results ! k)))"
    using run len at_i others by (intro exI [of _ "?results client"] conjI) (simp_all only: length_map, blast+)
  have fourth: "\<forall>svc key st response arn e' st4.
            submit svc = Inr response \<and> response ''invocationArn'' = Some arn \<and>
            wait_for_job_completion svc (py_str arn) (cfg_poll_interval p) (cfg_timeout p)
              (poller_entry_state bucket key (py_str arn) st) = Some (Inl e', st4) \<longrightarrow>
            (\<exists>st'. process_single_document json_loads svc bucket key cfg st =
                     Some (error_record (basename key) (document_uri bucket key) (JStr (str_exn e')), st')) \<and>
            error_record (basename key) (document_uri bucket key) (JStr (str_exn e')) ''processing_status'' =
              ?row ''processing_status''"
  proof (intro allI impI conjI)
    fix svc key st response arn e' st4
    assume h: "submit svc = Inr response \<and> response ''invocationArn'' = Some arn \<and>
            wait_for_job_completion svc (py_str arn) (cfg_poll_interval p) (cfg_timeout p)
              (poller_entry_state bucket key (py_str arn) st) = Some (Inl e', st4)"
    then show "\<exists>st'. process_single_document json_loads svc bucket key cfg st =
                     Some (error_record (basename key) (document_uri bucket key) (JStr (str_exn e')), st')"
      using poller_failure_row [of svc response arn cfg p bucket key st e' st4 json_loads] p by blast
    show "error_record (basename key) (document_uri bucket key) (JStr (str_exn e')) ''processing_status'' =
              ?row ''processing_status''"
      by (simp add: error_record_def)
  qed
  from first second status third fourth show ?thesis by (intro conjI) blast+
qed

theorem submission_failure_is_isolated_witness:
  "(\<exists>st'. process_single_document (\<lambda>s. Inl (JSONDecodeError s))
            \<lparr>submit = Inl (ClientError ''AccessDeniedException''),
             status_reply = (\<lambda>k. Inl (ClientError ''no such job'')), delay = (\<lambda>k. 1)\<rparr>
            ''docs'' ''in/b.pdf''
            \<lparr>aws = None, blueprint = None, project = None, s3 = None,
              processing = Some \<lparr>cfg_batch_size = 2, cfg_poll_interval = 5, cfg_timeout = 300\<rparr>,
              output_include_metadata = Some True\<rparr> worker_start =
          Some (error_record ''b.pdf'' ''s3://docs/in/b.pdf'' (JStr ''AccessDeniedException''), st') \<and>
        polls st' = []) \<and>
   (\<exists>results.
      process_documents_batch (\<lambda>s. Inl (JSONDecodeError s))
        (\<lambda>j. if j = 1 then
               \<lparr>submit = Inl (ClientError ''AccessDeniedException''),
                status_reply = (\<lambda>k. Inl (ClientError ''no such job'')), delay = (\<lambda>k. 1)\<rparr>
             else
               \<lparr>submit = Inr [''invocationArn'' \<mapsto> JStr ''job''],
                status_reply = (\<lambda>k. if k = 0 then Inr [''status'' \<mapsto> JStr ''IN_PROGRESS'']
                                     else Inr [''status'' \<mapsto> JStr ''SUCCESS'',
                                               ''output'' \<mapsto> JDict [(''State'', JStr ''IN'')]]),
                delay = (\<lambda>k. 1)\<rparr>)
        [''in/a.pdf'', ''in/b.pdf'', ''in/c.pdf''] ''docs''
        \<lparr>aws = None, blueprint = None, project = None, s3 = None,
          processing = Some \<lparr>cfg_batch_size = 2, cfg_poll_interval = 5, cfg_timeout = 300\<rparr>,
          output_include_metadata = Some True\<rparr> [1, 0, 2] = Some (Inr results) \<and>
      length results = 3 \<and>
      map (\<lambda>r. (r ''document'', r ''processing_status'', r ''State'', r ''error_message'')) results =
        [(Some (JStr ''b.pdf''), Some (JStr ''error''), None, Some (JStr ''AccessDeniedException'')),
         (Some (JStr ''a.pdf''), Some (JStr ''success''), Some (JStr ''IN''), None),
         (Some (JStr ''c.pdf''), Some (JStr ''success''), Some (JStr ''IN''), None)] \<and>
      csv_rows (fst (export_results_to_csv results True)) ! 0 =
        JStr ''b.pdf'' # replicate 10 (JStr '''') @
        [JStr ''s3://docs/in/b.pdf'', JStr ''error'', JStr ''AccessDeniedException'']) \<and>
   (\<exists>st'. process_single_document (\<lambda>s. Inl (JSONDecodeError s))
            \<lparr>submit = Inr [''invocationArn'' \<mapsto> JStr ''job''],
             status_reply = (\<lambda>k. Inr [''status'' \<mapsto> JStr ''FAILED'']), delay = (\<lambda>k. 1)\<rparr>
            ''docs'' ''in/c.pdf''
            \<lparr>aws = None, blueprint = None, project = None, s3 = None,
              processing = Some \<lparr>cfg_batch_size = 2, cfg_poll_interval = 5, cfg_timeout = 300\<rparr>,
              output_include_metadata = Some True\<rparr> worker_start =
          Some (error_record ''c.pdf'' ''s3://docs/in/c.pdf'' (JStr ''Job failed: Unknown error''), st'))"
proof -
  let ?bad = "\<lparr>submit = Inl (ClientError ''AccessDeniedException''),
                status_reply = (\<lambda>k. Inl (ClientError ''no such job'')), delay = (\<lambda>k. 1)\<rparr>"
  let ?good = "\<lparr>submit = Inr [''invocationArn'' \<mapsto> JStr ''job''],
                status_reply = (\<lambda>k. if k = 0 then Inr [''status'' \<mapsto> JStr ''IN_PROGRESS'']
                                     else Inr [''status'' \<mapsto> JStr ''SUCCESS'',
                                               ''output'' \<mapsto> JDict [(''State'', JStr ''IN'')]]),
                delay = (\<lambda>k. 1)\<rparr>"
  let ?client = "\<lambda>j::nat. if j = 1 then ?bad else ?good"
  let ?p = "\<lparr>cfg_batch_size = 2, cfg_poll_interval = 5, cfg_timeout = 300\<rparr>"
  let ?cfg = "\<lparr>aws = None, blueprint = None, project = None, s3 = None,
          processing = Some ?p, output_include_metadata = Some True\<rparr>"
  let ?docs = "[''in/a.pdf'', ''in/b.pdf'', ''in/c.pdf'']"
  have h1: "mset [1, 0, 2] = mset [0..<length ?docs]"
    by (simp add: upt_rec numeral_3_eq_3)
  have h2: "processing ?cfg = Some ?p" by simp
  have h3: "0 < cfg_batch_size ?p" by simp
  have h4: "\<forall>j k. 0 < cfg_poll_interval ?p + int (delay (?client j) k)" by simp
  have h5: "1 < length ?docs" by simp
  have h6: "submit (?client 1) = Inl (ClientError ''AccessDeniedException'')" by simp
  from submission_failure_is_isolated [OF h1 h2 h3 h4 h5 h6, of "\<lambda>s. Inl (JSONDecodeError s)" "''docs''",
      THEN conjunct1, rule_format, of "''in/b.pdf''" worker_start]
  have worker: "\<exists>st'. process_single_document (\<lambda>s. Inl (JSONDecodeError s)) ?bad
            ''docs'' ''in/b.pdf'' ?cfg worker_start =
          Some (error_record ''b.pdf'' ''s3://docs/in/b.pdf'' (JStr ''AccessDeniedException''), st') \<and>
        polls st' = []"
    by (simp add: basename_def document_uri_def worker_start_def)
  have run: "\<exists>results.
      process_documents_batch (\<lambda>s. Inl (JSONDecodeError s)) ?client ?docs ''docs'' ?cfg [1, 0, 2] =
        Some (Inr results) \<and>
      length results = 3 \<and>
      map (\<lambda>r. (r ''document'', r ''processing_status'', r ''State'', r ''error_message'')) results =
        [(Some (JStr ''b.pdf''), Some (JStr ''error''), None, Some (JStr ''AccessDeniedException'')),
         (Some (JStr ''a.pdf''), Some (JStr ''success''), Some (JStr ''IN''), None),
         (Some (JStr ''c.pdf''), Some (JStr ''success''), Some (JStr ''IN''), None)] \<and>
      csv_rows (fst (export_results_to_csv results True)) ! 0 =
        JStr ''b.pdf'' # replicate 10 (JStr '''') @
        [JStr ''s3://docs/in/b.pdf'', JStr ''error'', JStr ''AccessDeniedException'']"
    by (simp add: process_documents_batch_def process_single_document_def invoke_document_processing_def
        wait_for_job_completion_def poll_loop.simps poll_round_def sleep_def log_msg_def worker_start_def
        extract_results_from_response_def extract_try_def export_results_to_csv_def basename_def
        error_record_def dict_get_def schema_fields_def base_columns_def metadata_columns_def
        df_has_column_def cell_def Let_def py_str_def numeral_eq_Suc)
  let ?failed_job = "\<lparr>submit = Inr [''invocationArn'' \<mapsto> JStr ''job''],
             status_reply = (\<lambda>k. Inr [''status'' \<mapsto> JStr ''FAILED'']), delay = (\<lambda>k. 1)\<rparr>"
  have "\<exists>st4. wait_for_job_completion ?failed_job (py_str (JStr ''job'')) (cfg_poll_interval ?p)
               (cfg_timeout ?p) (poller_entry_state ''docs'' ''in/c.pdf'' (py_str (JStr ''job'')) worker_start) =
             Some (Inl (RuntimeError ''Job failed: Unknown error''), st4)"
    by (simp add: wait_for_job_completion_def poll_loop.simps poll_round_def poller_entry_state_def
          log_msg_def worker_start_def dict_get_def py_str_def Let_def)
  then obtain st4 where
    h7: "submit ?failed_job = Inr [''invocationArn'' \<mapsto> JStr ''job''] \<and>
         [''invocationArn'' \<mapsto> JStr ''job''] ''invocationArn'' = Some (JStr ''job'') \<and>
         wait_for_job_completion ?failed_job (py_str (JStr ''job'')) (cfg_poll_interval ?p)
               (cfg_timeout ?p) (poller_entry_state ''docs'' ''in/c.pdf'' (py_str (JStr ''job'')) worker_start) =
             Some (Inl (RuntimeError ''Job failed: Unknown error''), st4)"
    by auto
  from submission_failure_is_isolated [OF h1 h2 h3 h4 h5 h6, of "\<lambda>s. Inl (JSONDecodeError s)" "''docs''",
      THEN conjunct2, THEN conjunct2, THEN conjunct2, THEN conjunct2, THEN conjunct2,
      THEN spec, THEN spec, THEN spec, THEN spec, THEN spec, THEN spec, THEN spec, THEN mp,
      OF h7, THEN conjunct1]
  have failed: "\<exists>st'. process_single_document (\<lambda>s. Inl (JSONDecodeError s)) ?failed_job
            ''docs'' ''in/c.pdf'' ?cfg worker_start =
          Some (error_record ''c.pdf'' ''s3://docs/in/c.pdf'' (JStr ''Job failed: Unknown error''), st')"
    by (simp add: basename_def document_uri_def)
  from worker run failed show ?thesis by (intro conjI)
qed

theorem submission_status_counterexample:
  "(\<exists>results.
      process_documents_batch (\<lambda>s. Inl (JSONDecodeError s))
        (\<lambda>j. if j = 1 then
               \<lparr>submit = Inl (ClientError ''AccessDeniedException''),
                status_reply = (\<lambda>k. Inl (ClientError ''no such job'')), delay = (\<lambda>k. 1)\<rparr>
             else
               \<lparr>submit = Inr [''invocationArn'' \<mapsto> JStr ''job''],
                status_reply = (\<lambda>k. Inr [''status'' \<mapsto> JStr ''SUCCESS'']), delay = (\<lambda>k. 1)\<rparr>)
        [''in/a.pdf'', ''in/b.pdf'', ''in/c.pdf''] ''docs''
        \<lparr>aws = None, blueprint = None, project = None, s3 = None,
          processing = Some \<lparr>cfg_batch_size = 2, cfg_poll_interval = 5, cfg_timeout = 300\<rparr>,
          output_include_metadata = Some True\<rparr> [0, 1, 2] = Some (Inr results) \<and>
      map (\<lambda>r. (r ''document'', r ''processing_status'', r ''error_message'')) results =
        [(Some (JStr ''a.pdf''), Some (JStr ''success''), None),
         (Some (JStr ''b.pdf''), Some (JStr ''error''), Some (JStr ''AccessDeniedException'')),
         (Some (JStr ''c.pdf''), Some (JStr ''success''), None)]) \<and>
   (\<exists>results.
      process_documents_batch (\<lambda>s. Inl (JSONDecodeError s))
        (\<lambda>j. if j = 1 then
               \<lparr>submit = Inr [''invocationArn'' \<mapsto> JStr ''job''],
                status_reply = (\<lambda>k. Inr [''status'' \<mapsto> JStr ''FAILED'']), delay = (\<lambda>k. 1)\<rparr>
             else
               \<lparr>submit = Inr [''invocationArn'' \<mapsto> JStr ''job''],
                status_reply = (\<lambda>k. Inr [''status'' \<mapsto> JStr ''SUCCESS'']), delay = (\<lambda>k. 1)\<rparr>)
        [''in/a.pdf'', ''in/b.pdf'', ''in/c.pdf''] ''docs''
        \<lparr>aws = None, blueprint = None, project = None, s3 = None,
          processing = Some \<lparr>cfg_batch_size = 2, cfg_poll_interval = 5, cfg_timeout = 300\<rparr>,
          output_include_metadata = Some True\<rparr> [0, 1, 2] = Some (Inr results) \<and>
      map (\<lambda>r. (r ''document'', r ''processing_status'', r ''error_message'')) results =
        [(Some (JStr ''a.pdf''), Some (JStr ''success''), None),
         (Some (JStr ''b.pdf''), Some (JStr ''error''), Some (JStr ''Job failed: Unknown error'')),
         (Some (JStr ''c.pdf''), Some (JStr ''success''), None)])"
  by (simp add: process_documents_batch_def process_single_document_def invoke_document_processing_def
        wait_for_job_completion_def poll_loop.simps poll_round_def sleep_def log_msg_def worker_start_def
        worker_handler_def extract_results_from_response_def extract_try_def basename_def
        error_record_def dict_get_def Let_def py_str_def numeral_eq_Suc)

end
